theory Spec2Isabelle
  imports Complex_Main "HOL-Library.Multiset"
begin

section \<open>Tensors and the numeric primitives of gatn\_utils\<close>

text \<open>
  The module works on float tensors. They are modelled with exact arithmetic: a scalar is
  a \<open>real\<close>, a label or probability matrix of shape [N, C] is a list of N rows, and a
  signal batch of shape [B, T, Ch] is a list of B samples, each a list of T rows. Rounding,
  \<open>nan\<close> and \<open>inf\<close> are outside the model; where the source divides by a sum that is
  zero the value of the model is the one of HOL's total division, and no statement below
  rests on it.
\<close>

type_synonym matrix = "real list list"
type_synonym tensor3 = "real list list list"

datatype error = IndexError | NotFoundError | ZeroDivisionError | ValueError

text \<open>Integer indexing of one axis of length \<open>n\<close>: negative indices count from the
  end, anything outside \<open>[-n, n)\<close> raises.\<close>

definition norm_index :: "nat \<Rightarrow> int \<Rightarrow> nat option" where
  "norm_index n i =
     (if 0 \<le> i \<and> i < int n then Some (nat i)
      else if - int n \<le> i \<and> i < 0 then Some (nat (int n + i))
      else None)"

text \<open>\<open>tf.reduce_max(y, axis=-1)\<close> on one row. The reduction of an empty row (\<open>-inf\<close>
  in the source) is never used: with no column every index raises first.\<close>

fun reduce_max :: "real list \<Rightarrow> real" where
  "reduce_max [] = 0"
| "reduce_max (v # vs) = fold max vs v"

text \<open>\<open>tf.reduce_sum\<close> and \<open>tf.reduce_mean\<close> over a flat list of entries.\<close>

definition reduce_sum :: "real list \<Rightarrow> real" where
  "reduce_sum vs = sum_list vs"

definition reduce_mean :: "real list \<Rightarrow> real" where
  "reduce_mean vs = sum_list vs / real (length vs)"

text \<open>\<open>np.argmax\<close> / \<open>tf.argmax\<close> on one row: the first position of the largest entry.\<close>

fun argmax_from :: "nat \<Rightarrow> real \<Rightarrow> nat \<Rightarrow> real list \<Rightarrow> nat" where
  "argmax_from best bv i [] = best"
| "argmax_from best bv i (v # vs) =
     (if bv < v then argmax_from i v (Suc i) vs else argmax_from best bv (Suc i) vs)"

fun argmax :: "real list \<Rightarrow> nat" where
  "argmax [] = 0"
| "argmax (v # vs) = argmax_from 0 v 1 vs"

section \<open>Target reranking\<close>

text \<open>\<open>weighted_y[:, target] = vals\<close>: column \<open>target\<close> of every row is overwritten,
  row \<open>i\<close> with \<open>vals[i]\<close>.\<close>

definition assign_column :: "matrix \<Rightarrow> int \<Rightarrow> real list \<Rightarrow> error + matrix" where
  "assign_column y target vals =
     (if \<exists>row \<in> set y. norm_index (length row) target = None then Inl IndexError
      else Inr (map2 (\<lambda>row v. row[the (norm_index (length row) target) := v]) y vals))"

definition reranking :: "matrix \<Rightarrow> int \<Rightarrow> real \<Rightarrow> error + matrix" where
  "reranking y target alpha =
     (let max_y = map reduce_max y in
      case assign_column y target (map (\<lambda>m. alpha * m) max_y) of
        Inl e \<Rightarrow> Inl e
      | Inr weighted_y \<Rightarrow>
          Inr (map (\<lambda>row. map (\<lambda>v. v / reduce_sum row) row) weighted_y))"

text \<open>The reranking as the specification words it, for one row: the entry of the target
  class becomes \<open>alpha\<close> times the maximum of the row, then the row is divided by its new
  sum.\<close>

definition spec_rerank_row :: "nat \<Rightarrow> real \<Rightarrow> real list \<Rightarrow> real list" where
  "spec_rerank_row t alpha row =
     (let m = Max (set row);
          row' = row[t := alpha * m]
      in map (\<lambda>v. v / sum_list row') row')"

definition prob_row :: "real list \<Rightarrow> bool" where
  "prob_row row \<longleftrightarrow> list_all (\<lambda>v. 0 \<le> v) row \<and> sum_list row = 1"

section \<open>The models as capabilities\<close>

text \<open>
  The classifier and the ATN are Keras models built by the callables \<open>clf_model_fn\<close> and
  \<open>atn_model_fn\<close>; their architecture is not part of the module. A live classifier is
  what the module uses of it: the forward pass in inference mode, and the gradient of
  column \<open>target\<close> of its output with respect to the input, which a gradient tape
  computes. A live ATN maps the training flag, a batch and the gradient batch to the
  perturbed batch.
\<close>

record clf_model =
  clf_call :: "tensor3 \<Rightarrow> matrix"
  clf_input_grad :: "int \<Rightarrow> tensor3 \<Rightarrow> tensor3"

type_synonym atn_model = "bool \<Rightarrow> tensor3 \<Rightarrow> tensor3 \<Rightarrow> tensor3"

text \<open>What a model callable returns: the name of the model, its variables right after
  construction, and the live model for given variables. For the ATN the variables stand for
  everything its checkpoint object holds (model, optimizer, global step), and
  \<open>atn_update\<close> is \<open>optimizer.apply_gradients\<close> on the gradient of the batch loss with
  respect to the ATN variables: the classifier, target, \<open>alpha\<close>, \<open>beta\<close> and the batch
  determine the loss, the optimizer the step.\<close>

record 'c clf_arch =
  clf_default_name :: string
  clf_init :: 'c
  clf_live :: "'c \<Rightarrow> clf_model"

record 'p atn_arch =
  atn_default_name :: string
  atn_init :: 'p
  atn_live :: "'p \<Rightarrow> atn_model"
  atn_update :: "clf_model \<Rightarrow> int \<Rightarrow> real \<Rightarrow> real \<Rightarrow> tensor3 \<Rightarrow> 'p \<Rightarrow> 'p"

section \<open>Gradient extractor\<close>

text \<open>\<open>out[:, target]\<close> raises when \<open>target\<close> is no column of \<open>out\<close>.\<close>

definition select_column :: "matrix \<Rightarrow> int \<Rightarrow> error + real list" where
  "select_column out target =
     (if \<exists>row \<in> set out. norm_index (length row) target = None then Inl IndexError
      else Inr (map (\<lambda>row. row ! the (norm_index (length row) target)) out))"

definition compute_target_gradient ::
  "tensor3 \<Rightarrow> clf_model \<Rightarrow> int \<Rightarrow> error + matrix \<times> tensor3" where
  "compute_target_gradient x model target =
     (let out = clf_call model x in
      case select_column out target of
        Inl e \<Rightarrow> Inl e
      | Inr target_out \<Rightarrow> Inr (out, clf_input_grad model target x))"

section \<open>Loss assembler\<close>

text \<open>\<open>tf.losses.mean_squared_error(a, b)\<close> averages the squared differences over the last
  axis: one value per row of a matrix, one row of values per sample of a signal batch.\<close>

definition mean_squared_error :: "matrix \<Rightarrow> matrix \<Rightarrow> real list" where
  "mean_squared_error y_true y_pred =
     map2 (\<lambda>rt rp. reduce_mean (map2 (\<lambda>u v. (v - u)\<^sup>2) rt rp)) y_true y_pred"

definition mean_squared_error3 :: "tensor3 \<Rightarrow> tensor3 \<Rightarrow> matrix" where
  "mean_squared_error3 a b = map2 mean_squared_error a b"

definition targetted_mse :: "matrix \<Rightarrow> matrix \<Rightarrow> int \<Rightarrow> real \<Rightarrow> error + real" where
  "targetted_mse y_generated y_pred target_id alpha =
     (case reranking y_pred target_id alpha of
        Inl e \<Rightarrow> Inl e
      | Inr y_pred' \<Rightarrow>
          let initial_loss = mean_squared_error y_pred' y_generated;
              loss = reduce_mean initial_loss
          in Inr loss)"

text \<open>\<open>tf.square(x - x_adversarial)\<close>, entry by entry.\<close>

definition squared_difference :: "tensor3 \<Rightarrow> tensor3 \<Rightarrow> tensor3" where
  "squared_difference x x' = map2 (map2 (map2 (\<lambda>u v. (u - v)\<^sup>2))) x x'"

text \<open>The body of the gradient tape of one training batch, up to \<open>loss\<close>.\<close>

definition gatn_batch_loss ::
  "clf_model \<Rightarrow> atn_model \<Rightarrow> int \<Rightarrow> real \<Rightarrow> real \<Rightarrow> tensor3 \<Rightarrow> error + real" where
  "gatn_batch_loss clf_model atn_model target_class_id alpha beta x =
     (case compute_target_gradient x clf_model target_class_id of
        Inl e \<Rightarrow> Inl e
      | Inr (y_pred, x_grad) \<Rightarrow>
          let x_adversarial = atn_model True x x_grad;
              y_pred_adversarial = clf_call clf_model x_adversarial;
              loss_x = reduce_mean (concat (concat (squared_difference x x_adversarial)))
          in case targetted_mse y_pred_adversarial y_pred target_class_id alpha of
               Inl e \<Rightarrow> Inl e
             | Inr loss_y \<Rightarrow>
                 let reshaped_loss_x = [[loss_x]];
                     loss_x = reduce_sum (concat reshaped_loss_x);
                     loss = beta * loss_x + loss_y
                 in Inr loss)"

text \<open>The loss as the specification words it: the mean over all entries of the squared
  perturbation, weighted by \<open>beta\<close>, plus the mean squared error between the reranked
  clean prediction and the adversarial prediction.\<close>

definition spec_mean_sq :: "real list \<Rightarrow> real list \<Rightarrow> real" where
  "spec_mean_sq us vs = (\<Sum>(u, v) \<leftarrow> zip us vs. (u - v)\<^sup>2) / real (length (zip us vs))"

definition spec_assemble_loss ::
  "tensor3 \<Rightarrow> tensor3 \<Rightarrow> matrix \<Rightarrow> matrix \<Rightarrow> nat \<Rightarrow> real \<Rightarrow> real \<Rightarrow> real" where
  "spec_assemble_loss x x_adv y_pred_adv y_pred_clean target_class alpha beta =
     (let loss_y = spec_mean_sq (concat (map (spec_rerank_row target_class alpha) y_pred_clean))
                                (concat y_pred_adv);
          loss_x = spec_mean_sq (concat (concat x)) (concat (concat x_adv))
      in beta * loss_x + loss_y)"

section \<open>Metric accumulators\<close>

text \<open>\<open>tf.keras.metrics.Mean\<close>: a running total and a count; the result is their quotient,
  0 before the first update.\<close>

record mean_metric =
  total :: real
  count :: nat

definition Mean :: mean_metric where
  "Mean = \<lparr>total = 0, count = 0\<rparr>"

definition update_state :: "mean_metric \<Rightarrow> real \<Rightarrow> mean_metric" where
  "update_state m v = \<lparr>total = total m + v, count = count m + 1\<rparr>"

definition result :: "mean_metric \<Rightarrow> real" where
  "result m = (if count m = 0 then 0 else total m / real (count m))"

section \<open>Helpers of generic\_utils\<close>

text \<open>Modelled from the spec: \<open>generic_utils.checked_argmax\<close> is not among the sources. The
  evaluation engine compares the clean prediction and the adversarial prediction of each
  sample as class labels, so it is the row-wise argmax of a prediction matrix.\<close>

definition checked_argmax :: "matrix \<Rightarrow> nat list" where
  "checked_argmax y = map argmax y"

text \<open>Modelled from the spec: \<open>generic_utils.target_accuracy\<close> is not among the sources.
  Section 6 gives its interface,
  \<open>target_accuracy(y_true_or_proxy, y_pred, target_class) -> (accuracy, target_rate)\<close>, and
  section 4.5 what the two values are: the agreement rate between the predicted labels and
  the labels of the first argument, and the fraction of samples whose predicted label is
  the target class.\<close>

definition target_accuracy :: "matrix \<Rightarrow> matrix \<Rightarrow> int \<Rightarrow> real \<times> real" where
  "target_accuracy y_label y_pred target_id =
     (let labels = checked_argmax y_label;
          preds = checked_argmax y_pred;
          accuracy = reduce_mean (map2 (\<lambda>l p. if l = p then 1 else 0) labels preds);
          target_rate = reduce_mean (map (\<lambda>p. if int p = target_id then 1 else 0) preds)
      in (accuracy, target_rate))"

section \<open>Datasets and batches\<close>

type_synonym sample = "real list list"
type_synonym label = "real list"
type_synonym batch = "tensor3 \<times> matrix"

text \<open>Modelled from the spec: \<open>generic_utils.prepare_dataset\<close> is not among the sources.
  Section 6: it produces batch-shaped, optionally shuffled iterables from the two splits;
  sections 5 and 8: a pass over an iterable sees the batches in a fixed order, shuffled once
  per pass when shuffling is asked for, every batch of the batch size but a smaller last
  one, no sample dropped or duplicated. An iterable is kept as the split it was made from;
  \<open>iterate\<close> is one pass over it, drawing the order from the random state when it
  shuffles.\<close>

record dataset =
  ds_X :: tensor3
  ds_y :: matrix
  ds_batch_size :: nat
  ds_shuffle :: bool

definition prepare_dataset ::
  "tensor3 \<Rightarrow> matrix \<Rightarrow> tensor3 \<Rightarrow> matrix \<Rightarrow> nat \<Rightarrow> bool \<Rightarrow> dataset \<times> dataset" where
  "prepare_dataset X_train y_train X_test y_test batch_size shuffle =
     (\<lparr>ds_X = X_train, ds_y = y_train, ds_batch_size = batch_size, ds_shuffle = shuffle\<rparr>,
      \<lparr>ds_X = X_test, ds_y = y_test, ds_batch_size = batch_size, ds_shuffle = shuffle\<rparr>)"

function batch_list :: "nat \<Rightarrow> 'a list \<Rightarrow> 'a list list" where
  "batch_list n xs =
     (if n = 0 \<or> xs = [] then [] else take n xs # batch_list n (drop n xs))"
  by pat_completeness auto
termination
  by (relation "measure (\<lambda>(n, xs). length xs)") auto

definition iterate ::
  "(nat \<Rightarrow> (sample \<times> label) list \<Rightarrow> (sample \<times> label) list) \<Rightarrow> nat \<Rightarrow> dataset
     \<Rightarrow> batch list \<times> nat" where
  "iterate shuffler seed ds =
     (let pairs = zip (ds_X ds) (ds_y ds);
          ordered = (if ds_shuffle ds then shuffler seed pairs else pairs);
          seed' = (if ds_shuffle ds then Suc seed else seed)
      in (map (\<lambda>chunk. (map fst chunk, map snd chunk)) (batch_list (ds_batch_size ds) ordered),
          seed'))"

text \<open>\<open>n // batchsize + int(n % batchsize != 0)\<close>.\<close>

definition num_batches :: "nat \<Rightarrow> nat \<Rightarrow> error + nat" where
  "num_batches n batchsize =
     (if batchsize = 0 then Inl ZeroDivisionError
      else Inr (n div batchsize + (if n mod batchsize \<noteq> 0 then 1 else 0)))"

section \<open>Checkpoints and the file system\<close>

text \<open>
  The persisted state: the directories that exist, the two checkpoint families by path,
  and the state of the random generator behind shuffling. \<open>tf.train.Checkpoint.restore\<close>
  raises when nothing was saved under the path, and \<open>write\<close> stores the variables
  under it.
\<close>

record ('c, 'p) world =
  dirs :: "string set"
  clf_files :: "string \<Rightarrow> 'c option"
  atn_files :: "string \<Rightarrow> 'p option"
  rng :: nat

definition restore :: "(string \<Rightarrow> 'a option) \<Rightarrow> string \<Rightarrow> error + 'a" where
  "restore files path = (case files path of None \<Rightarrow> Inl NotFoundError | Some v \<Rightarrow> Inr v)"

text \<open>\<open>if not os.path.exists(p): os.makedirs(p, exist_ok=True)\<close>.\<close>

definition makedirs :: "string \<Rightarrow> ('c, 'p) world \<Rightarrow> ('c, 'p) world" where
  "makedirs p w = (if p \<in> dirs w then w else w\<lparr>dirs := insert p (dirs w)\<rparr>)"

text \<open>The \<open>%d\<close> conversion of an integer.\<close>

function fmt_nat :: "nat \<Rightarrow> string" where
  "fmt_nat n =
     (if n < 10 then [char_of (48 + n)] else fmt_nat (n div 10) @ [char_of (48 + n mod 10)])"
  by pat_completeness auto
termination
  by (relation "measure (\<lambda>n. n)") auto

definition fmt_d :: "int \<Rightarrow> string" where
  "fmt_d i = (if i < 0 then CHR ''-'' # fmt_nat (nat (- i)) else fmt_nat (nat i))"

definition clf_basepath :: "string \<Rightarrow> string \<Rightarrow> string" where
  "clf_basepath dataset_name clf_model_name =
     ''weights/'' @ dataset_name @ ''/'' @ clf_model_name @ ''/''"

definition gatn_basepath :: "string \<Rightarrow> string \<Rightarrow> int \<Rightarrow> string" where
  "gatn_basepath dataset_name atn_model_name target_class_id =
     ''gatn_weights/'' @ dataset_name @ ''/'' @ (atn_model_name @ ''_'' @ fmt_d target_class_id)
       @ ''/''"

section \<open>Evaluation engine\<close>

text \<open>\<open>np.argwhere(found)[:, 0]\<close>: the positions that hold \<open>True\<close>, ascending.\<close>

definition argwhere :: "bool list \<Rightarrow> nat list" where
  "argwhere found = filter (\<lambda>i. found ! i) [0..<length found]"

text \<open>The block \<open># find the adversary ids\<close>, the same text in \<open>evaluate_gatn\<close>,
  \<open>train_scores_gatn\<close> and \<open>test_scores_gatn\<close>; it returns \<open>not_same.tolist()\<close>.\<close>

definition find_adversary_ids :: "nat \<Rightarrow> nat \<Rightarrow> matrix \<Rightarrow> matrix \<Rightarrow> matrix \<Rightarrow> int list" where
  "find_adversary_ids batch_id batchsize y y_test_pred y_pred_adversarial =
     (let y_labels = map argmax y;
          y_pred_labels = checked_argmax y_test_pred;
          y_adv_labels = checked_argmax y_pred_adversarial;
          pred_eq_ground = map2 (\<lambda>a b. a = b) y_labels y_pred_labels;
          pred_neq_adv_labels = map2 (\<lambda>a b. a \<noteq> b) y_pred_labels y_adv_labels;
          found_adversary = map2 (\<lambda>a b. a \<and> b) pred_eq_ground pred_neq_adv_labels;
          not_same = argwhere found_adversary
      in map (\<lambda>i. int batch_id * int batchsize + int i) not_same)"

text \<open>What one batch of an evaluation pass computes before the accumulators are
  touched.\<close>

record batch_eval =
  be_y_test_pred :: matrix
  be_y_pred_adversarial :: matrix
  be_acc_val_white :: real
  be_acc_val_black :: real
  be_target_rate :: real
  be_x_mse :: real

definition eval_batch :: "clf_model \<Rightarrow> atn_model \<Rightarrow> int \<Rightarrow> batch \<Rightarrow> error + batch_eval" where
  "eval_batch clf_model atn_model target_class_id b =
     (let (x, y) = b in
      case compute_target_gradient x clf_model target_class_id of
        Inl e \<Rightarrow> Inl e
      | Inr (y_test_pred0, x_test_grad) \<Rightarrow>
          let x_test_adversarial = atn_model False x x_test_grad;
              y_test_pred = clf_call clf_model x;
              y_pred_adversarial = clf_call clf_model x_test_adversarial;
              (acc_val_white, target_rate) = target_accuracy y y_pred_adversarial target_class_id;
              (acc_val_black, _) = target_accuracy y_test_pred y_pred_adversarial target_class_id;
              initial_loss = mean_squared_error3 x x_test_adversarial;
              x_mse = reduce_mean (concat initial_loss)
          in Inr \<lparr>be_y_test_pred = y_test_pred, be_y_pred_adversarial = y_pred_adversarial,
                  be_acc_val_white = acc_val_white, be_acc_val_black = acc_val_black,
                  be_target_rate = target_rate, be_x_mse = x_mse\<rparr>)"

record scores_state =
  acc_realistic_mean :: mean_metric
  acc_optimistic_mean :: mean_metric
  target_rate_mean :: mean_metric
  mse_mean :: mean_metric
  st_batch_id :: nat
  st_adversary_ids :: "int list"

definition scores_init :: scores_state where
  "scores_init = \<lparr>acc_realistic_mean = Mean, acc_optimistic_mean = Mean, target_rate_mean = Mean,
                   mse_mean = Mean, st_batch_id = 0, st_adversary_ids = []\<rparr>"

definition scores_step :: "nat \<Rightarrow> scores_state \<Rightarrow> matrix \<Rightarrow> batch_eval \<Rightarrow> scores_state" where
  "scores_step batchsize st y be =
     \<lparr>acc_realistic_mean = update_state (acc_realistic_mean st) (be_acc_val_white be),
      acc_optimistic_mean = update_state (acc_optimistic_mean st) (be_acc_val_black be),
      target_rate_mean = update_state (target_rate_mean st) (be_target_rate be),
      mse_mean = update_state (mse_mean st) (be_x_mse be),
      st_batch_id = st_batch_id st + 1,
      st_adversary_ids = st_adversary_ids st
        @ find_adversary_ids (st_batch_id st) batchsize y (be_y_test_pred be)
            (be_y_pred_adversarial be)\<rparr>"

text \<open>The loop over the iterator. \<open>stop = Some n\<close> is the guard
  \<open>if test_iter >= n: break\<close> of the two scoring functions; \<open>evaluate_gatn\<close> has none.\<close>

fun scores_loop ::
  "clf_model \<Rightarrow> atn_model \<Rightarrow> int \<Rightarrow> nat \<Rightarrow> nat option \<Rightarrow> nat \<Rightarrow> batch list \<Rightarrow> scores_state
     \<Rightarrow> error + scores_state" where
  "scores_loop clf atn t batchsize stop test_iter [] st = Inr st"
| "scores_loop clf atn t batchsize stop test_iter (b # rest) st =
     (if (case stop of None \<Rightarrow> False | Some n \<Rightarrow> test_iter \<ge> n) then Inr st
      else case eval_batch clf atn t b of
             Inl e \<Rightarrow> Inl e
           | Inr be \<Rightarrow>
               scores_loop clf atn t batchsize stop (Suc test_iter) rest
                 (scores_step batchsize st (snd b) be))"

text \<open>The collaborators outside the module: \<open>load_splits\<close> is \<open>load_dataset\<close> followed by
  \<open>split_dataset(X_test, y_test, test_fraction=0.5)\<close>, \<open>shuffler\<close> the permutation a
  shuffled pass draws from the random state, \<open>shuffle_default\<close> the default of the
  \<open>shuffle\<close> parameter of \<open>prepare_dataset\<close>.\<close>

record env =
  load_splits :: "string \<Rightarrow> (tensor3 \<times> matrix) \<times> (tensor3 \<times> matrix)"
  shuffler :: "nat \<Rightarrow> (sample \<times> label) list \<Rightarrow> (sample \<times> label) list"
  shuffle_default :: bool

record gatn_args =
  arg_dataset_name :: string
  arg_target_class_id :: int
  arg_batchsize :: nat
  arg_atn_name :: "string option"
  arg_clf_name :: "string option"

datatype split = TrainSplit | TestSplit

type_synonym scores = "real \<times> real \<times> real \<times> real \<times> int list"

text \<open>\<open>train_scores_gatn\<close> and \<open>test_scores_gatn\<close> are the same text up to the split they
  iterate and count the batches of; \<open>clf_model_fn\<close> and \<open>atn_model_fn\<close> stand for the
  models the two callables build for the shapes of the dataset.\<close>

definition scores_gatn ::
  "split \<Rightarrow> env \<Rightarrow> 'p atn_arch \<Rightarrow> 'c clf_arch \<Rightarrow> gatn_args \<Rightarrow> bool \<Rightarrow> ('c, 'p) world
     \<Rightarrow> error + scores \<times> ('c, 'p) world" where
  "scores_gatn which e atn_model_fn clf_model_fn args shuffle w =
     (let ((X_train, y_train), (X_test, y_test)) = load_splits e (arg_dataset_name args);
          batchsize = min (arg_batchsize args) (length X_train);
          n = (case which of TrainSplit \<Rightarrow> length X_train | TestSplit \<Rightarrow> length X_test)
      in case num_batches n batchsize of
           Inl err \<Rightarrow> Inl err
         | Inr n_batches \<Rightarrow>
      let (train_dataset, test_dataset) =
            prepare_dataset X_train y_train X_test y_test batchsize shuffle;
          dataset = (case which of TrainSplit \<Rightarrow> train_dataset | TestSplit \<Rightarrow> test_dataset);
          clf_model_name = (case arg_clf_name args of None \<Rightarrow> clf_default_name clf_model_fn
                            | Some nm \<Rightarrow> nm);
          basepath = clf_basepath (arg_dataset_name args) clf_model_name;
          w1 = makedirs basepath w;
          checkpoint_path = basepath @ clf_model_name
      in case restore (clf_files w1) checkpoint_path of
           Inl err \<Rightarrow> Inl err
         | Inr clf_vars \<Rightarrow>
      let atn_model_name = (case arg_atn_name args of None \<Rightarrow> atn_default_name atn_model_fn
                            | Some nm \<Rightarrow> nm);
          gatn_base = gatn_basepath (arg_dataset_name args) atn_model_name (arg_target_class_id args);
          w2 = makedirs gatn_base w1;
          atn_checkpoint_path = gatn_base @ atn_model_name @ ''_'' @ fmt_d (arg_target_class_id args)
      in case restore (atn_files w2) atn_checkpoint_path of
           Inl err \<Rightarrow> Inl err
         | Inr atn_vars \<Rightarrow>
      let (batches, seed') = iterate (shuffler e) (rng w2) dataset;
          w3 = w2\<lparr>rng := seed'\<rparr>
      in case scores_loop (clf_live clf_model_fn clf_vars) (atn_live atn_model_fn atn_vars)
                (arg_target_class_id args) batchsize (Some n_batches) 0 batches scores_init of
           Inl err \<Rightarrow> Inl err
         | Inr st \<Rightarrow>
             Inr ((result (mse_mean st), result (acc_realistic_mean st), result (acc_optimistic_mean st),
                   result (target_rate_mean st), st_adversary_ids st), w3))"


definition test_scores_gatn ::
  "env \<Rightarrow> 'p atn_arch \<Rightarrow> 'c clf_arch \<Rightarrow> gatn_args \<Rightarrow> bool \<Rightarrow> ('c, 'p) world
     \<Rightarrow> error + scores \<times> ('c, 'p) world" where
  "test_scores_gatn = scores_gatn TestSplit"

text \<open>\<open>evaluate_gatn\<close> scores the test split with the default shuffling and no guard on
  the number of batches, and prints what the scoring functions return.\<close>

definition evaluate_gatn ::
  "env \<Rightarrow> 'p atn_arch \<Rightarrow> 'c clf_arch \<Rightarrow> gatn_args \<Rightarrow> ('c, 'p) world
     \<Rightarrow> error + scores \<times> ('c, 'p) world" where
  "evaluate_gatn e atn_model_fn clf_model_fn args w =
     (let ((X_train, y_train), (X_test, y_test)) = load_splits e (arg_dataset_name args);
          batchsize = min (arg_batchsize args) (length X_train)
      in case num_batches (length X_test) batchsize of
           Inl err \<Rightarrow> Inl err
         | Inr num_test_batches \<Rightarrow>
      let (train_dataset, test_dataset) =
            prepare_dataset X_train y_train X_test y_test batchsize (shuffle_default e);
          clf_model_name = (case arg_clf_name args of None \<Rightarrow> clf_default_name clf_model_fn
                            | Some nm \<Rightarrow> nm);
          basepath = clf_basepath (arg_dataset_name args) clf_model_name;
          w1 = makedirs basepath w;
          checkpoint_path = basepath @ clf_model_name
      in case restore (clf_files w1) checkpoint_path of
           Inl err \<Rightarrow> Inl err
         | Inr clf_vars \<Rightarrow>
      let atn_model_name = (case arg_atn_name args of None \<Rightarrow> atn_default_name atn_model_fn
                            | Some nm \<Rightarrow> nm);
          gatn_base = gatn_basepath (arg_dataset_name args) atn_model_name (arg_target_class_id args);
          w2 = makedirs gatn_base w1;
          atn_checkpoint_path = gatn_base @ atn_model_name @ ''_'' @ fmt_d (arg_target_class_id args)
      in case restore (atn_files w2) atn_checkpoint_path of
           Inl err \<Rightarrow> Inl err
         | Inr atn_vars \<Rightarrow>
      let (batches, seed') = iterate (shuffler e) (rng w2) test_dataset;
          w3 = w2\<lparr>rng := seed'\<rparr>
      in case scores_loop (clf_live clf_model_fn clf_vars) (atn_live atn_model_fn atn_vars)
                (arg_target_class_id args) batchsize None 0 batches scores_init of
           Inl err \<Rightarrow> Inl err
         | Inr st \<Rightarrow>
             Inr ((result (mse_mean st), result (acc_realistic_mean st), result (acc_optimistic_mean st),
                   result (target_rate_mean st), st_adversary_ids st), w3))"

section \<open>The batches of an evaluation pass\<close>

text \<open>The split a scoring function iterates, the batch size after the clamp
  \<open>min(batchsize, X_train.shape[0])\<close>, and the batches a pass gets to see: the first
  \<open>num_batches\<close> of one pass over the iterable.\<close>

definition split_data :: "split \<Rightarrow> env \<Rightarrow> gatn_args \<Rightarrow> tensor3 \<times> matrix" where
  "split_data which e args =
     (case which of TrainSplit \<Rightarrow> fst (load_splits e (arg_dataset_name args))
      | TestSplit \<Rightarrow> snd (load_splits e (arg_dataset_name args)))"

definition eval_batchsize :: "env \<Rightarrow> gatn_args \<Rightarrow> nat" where
  "eval_batchsize e args =
     min (arg_batchsize args) (length (fst (fst (load_splits e (arg_dataset_name args)))))"

definition pass_batches :: "split \<Rightarrow> env \<Rightarrow> gatn_args \<Rightarrow> bool \<Rightarrow> nat \<Rightarrow> batch list" where
  "pass_batches which e args shuffle seed =
     (let (X, y) = split_data which e args;
          bs = eval_batchsize e args;
          n = length X div bs + (if length X mod bs \<noteq> 0 then 1 else 0)
      in take n (fst (iterate (shuffler e) seed
                        \<lparr>ds_X = X, ds_y = y, ds_batch_size = bs, ds_shuffle = shuffle\<rparr>)))"

text \<open>The accumulator updates of a pass, batch after batch.\<close>

definition run_steps :: "nat \<Rightarrow> (batch \<times> batch_eval) list \<Rightarrow> scores_state \<Rightarrow> scores_state" where
  "run_steps batchsize pairs st = fold (\<lambda>(b, be) s. scores_step batchsize s (snd b) be) pairs st"

text \<open>The adversarial prediction of a batch: the classifier on the output of the ATN in
  inference mode.\<close>

definition adversarial_pred :: "clf_model \<Rightarrow> atn_model \<Rightarrow> int \<Rightarrow> tensor3 \<Rightarrow> matrix" where
  "adversarial_pred clf atn t x = clf_call clf (atn False x (clf_input_grad clf t x))"

text \<open>The batches \<open>evaluate_gatn\<close> sees: one whole pass over the test iterable.\<close>

definition test_batches :: "env \<Rightarrow> gatn_args \<Rightarrow> nat \<Rightarrow> batch list" where
  "test_batches e args seed =
     (let (X, y) = split_data TestSplit e args
      in fst (iterate (shuffler e) seed
                \<lparr>ds_X = X, ds_y = y, ds_batch_size = eval_batchsize e args,
                  ds_shuffle = shuffle_default e\<rparr>))"

text \<open>The reconstruction error of one batch, and the two ways to average per-batch values:
  the plain mean over the batches, and the mean weighted by the number of samples of each
  batch (the value over the whole split).\<close>

definition batch_mse :: "clf_model \<Rightarrow> atn_model \<Rightarrow> int \<Rightarrow> tensor3 \<Rightarrow> real" where
  "batch_mse clf atn t x =
     reduce_mean (concat (mean_squared_error3 x (atn False x (clf_input_grad clf t x))))"

definition mean_of_batches :: "real list \<Rightarrow> real" where
  "mean_of_batches vs = (if vs = [] then 0 else sum_list vs / real (length vs))"

definition weighted_mean :: "(nat \<times> real) list \<Rightarrow> real" where
  "weighted_mean nvs = (\<Sum>(n, v) \<leftarrow> nvs. real n * v) / real (\<Sum>(n, v) \<leftarrow> nvs. n)"


section \<open>Training loop\<close>

text \<open>\<open>X[idx]\<close> with a boolean mask \<open>idx\<close>: the entries whose mask is \<open>True\<close>, in
  order. The cleaning step of \<open>train_gatn\<close> keeps the samples whose label is not the
  target class.\<close>

definition mask_select :: "'a list \<Rightarrow> bool list \<Rightarrow> 'a list" where
  "mask_select xs idx = map fst (filter snd (zip xs idx))"

definition clean_data :: "tensor3 \<Rightarrow> matrix \<Rightarrow> int \<Rightarrow> tensor3 \<times> matrix" where
  "clean_data X_train y_train target_class_id =
     (let idx = map (\<lambda>row. int (argmax row) \<noteq> target_class_id) y_train;
          X_train = mask_select X_train idx;
          y_train = mask_select y_train idx
      in (X_train, y_train))"






text \<open>The training batches of one epoch, with the guard
  \<open>if train_iter >= num_train_batches: break\<close>.\<close>

fun train_pass ::
  "clf_model \<Rightarrow> 'p atn_arch \<Rightarrow> int \<Rightarrow> real \<Rightarrow> real \<Rightarrow> nat \<Rightarrow> nat \<Rightarrow> batch list
     \<Rightarrow> 'p \<times> mean_metric \<Rightarrow> error + 'p \<times> mean_metric" where
  "train_pass clf atn t alpha beta num_train_batches train_iter [] st = Inr st"
| "train_pass clf atn t alpha beta num_train_batches train_iter (b # rest) st =
     (if train_iter \<ge> num_train_batches then Inr st
      else case gatn_batch_loss clf (atn_live atn (fst st)) t alpha beta (fst b) of
             Inl e \<Rightarrow> Inl e
           | Inr loss \<Rightarrow>
               let atn_vars = atn_update atn clf t alpha beta (fst b) (fst st);
                   loss_val = reduce_mean [loss]
               in train_pass clf atn t alpha beta num_train_batches (Suc train_iter) rest
                    (atn_vars, update_state (snd st) loss_val))"







section \<open>Hyperparameter sweep\<close>

text \<open>
  The search script runs one trial per dataset and \<open>beta\<close>. A row of its log is the
  tuple the template \<open>'%d,%0.5f,%0.6f,%0.6f,%0.6f,%0.6f,%d\n'\<close> formats. The calls it
  makes are parameters of the model: \<open>base_exists\<close> is the test
  \<open>os.path.exists(basepath)\<close>, \<open>train_base\<close> the training of the base classifier,
  \<open>train_call\<close> and \<open>scores_call\<close> the calls of \<open>train_gatn\<close> and
  \<open>train_scores_gatn\<close> of a trial; each returns the state of the world it leaves and
  either its value or the exception it raised.
\<close>

datatype log_row = Row int real real real real real int

datatype 'e console_line = PrintException 'e | PrintFinished int real

record ('w, 'e) sweep_state =
  sw_world :: 'w
  sw_log_file :: "log_row list"
  SUCCESS :: "log_row list"
  ERRORS :: "log_row list"
  sw_console :: "'e console_line list"

record ('w, 'e) sweep_calls =
  base_exists :: "'w \<Rightarrow> int \<Rightarrow> bool"
  train_base :: "'w \<Rightarrow> int \<Rightarrow> 'e + 'w"
  train_call :: "'w \<Rightarrow> int \<Rightarrow> real \<Rightarrow> 'e option \<times> 'w"
  scores_call :: "'w \<Rightarrow> int \<Rightarrow> ('e + scores) \<times> 'w"

text \<open>The body of the inner loop. Training the base classifier happens before the
  \<open>try\<close>: an exception there is not caught.\<close>

definition trial ::
  "('w, 'e) sweep_calls \<Rightarrow> int \<Rightarrow> real \<Rightarrow> ('w, 'e) sweep_state \<Rightarrow> 'e + ('w, 'e) sweep_state" where
  "trial calls dataset_id beta st =
     (case (if base_exists calls (sw_world st) dataset_id then Inr (sw_world st)
            else train_base calls (sw_world st) dataset_id) of
        Inl e \<Rightarrow> Inl e
      | Inr w0 \<Rightarrow>
          (case train_call calls w0 dataset_id beta of
             (Some e, w1) \<Rightarrow>
               let tag = Row dataset_id beta (- 1) (- 1) (- 1) (- 1) (- 1)
               in Inr (st\<lparr>sw_world := w1, ERRORS := ERRORS st @ [tag],
                          sw_console := sw_console st @ [PrintException e]\<rparr>)
           | (None, w1) \<Rightarrow>
               (case scores_call calls w1 dataset_id of
                  (Inl e, w2) \<Rightarrow>
                    let tag = Row dataset_id beta (- 1) (- 1) (- 1) (- 1) (- 1)
                    in Inr (st\<lparr>sw_world := w2, ERRORS := ERRORS st @ [tag],
                               sw_console := sw_console st @ [PrintException e]\<rparr>)
                | (Inr (mse, acc_realistic, acc_optimistic, rate, ids), w2) \<Rightarrow>
                    let update = Row dataset_id beta mse acc_realistic acc_optimistic rate
                                   (int (length ids))
                    in Inr (st\<lparr>sw_world := w2, sw_log_file := sw_log_file st @ [update],
                               SUCCESS := SUCCESS st @ [update],
                               sw_console := sw_console st @ [PrintFinished dataset_id beta]\<rparr>))))"

fun sweep_betas ::
  "('w, 'e) sweep_calls \<Rightarrow> int \<Rightarrow> real list \<Rightarrow> ('w, 'e) sweep_state
     \<Rightarrow> 'e + ('w, 'e) sweep_state" where
  "sweep_betas calls dataset_id [] st = Inr st"
| "sweep_betas calls dataset_id (beta # betas) st =
     (case trial calls dataset_id beta st of
        Inl e \<Rightarrow> Inl e
      | Inr st' \<Rightarrow> sweep_betas calls dataset_id betas st')"

fun sweep ::
  "('w, 'e) sweep_calls \<Rightarrow> int list \<Rightarrow> real list \<Rightarrow> ('w, 'e) sweep_state
     \<Rightarrow> 'e + ('w, 'e) sweep_state" where
  "sweep calls [] BETAS st = Inr st"
| "sweep calls (dataset_id # datasets) BETAS st =
     (case sweep_betas calls dataset_id BETAS st of
        Inl e \<Rightarrow> Inl e
      | Inr st' \<Rightarrow> sweep calls datasets BETAS st')"

definition sweep_start :: "'w \<Rightarrow> ('w, 'e) sweep_state" where
  "sweep_start w = \<lparr>sw_world = w, sw_log_file = [], SUCCESS = [], ERRORS = [], sw_console = []\<rparr>"

definition sentinel :: "log_row \<Rightarrow> bool" where
  "sentinel r = (case r of Row d b mse ar ao rate n \<Rightarrow>
     mse = - 1 \<and> ar = - 1 \<and> ao = - 1 \<and> rate = - 1 \<and> n = - 1)"

fun is_exception :: "'e console_line \<Rightarrow> bool" where
  "is_exception (PrintException e) = True"
| "is_exception (PrintFinished d b) = False"

section \<open>The checkpoint protocol, as specified\<close>




section \<open>The checkpoint paths of a call\<close>

text \<open>The two paths every entry point builds: the classifier's from the dataset and the
  classifier name, the ATN's from the dataset, the ATN name and the target class.\<close>

definition clf_ckpt_path :: "'c clf_arch \<Rightarrow> gatn_args \<Rightarrow> string" where
  "clf_ckpt_path clf_model_fn args =
     (let clf_model_name = (case arg_clf_name args of None \<Rightarrow> clf_default_name clf_model_fn
                            | Some nm \<Rightarrow> nm)
      in clf_basepath (arg_dataset_name args) clf_model_name @ clf_model_name)"

definition atn_ckpt_path :: "'p atn_arch \<Rightarrow> gatn_args \<Rightarrow> string" where
  "atn_ckpt_path atn_model_fn args =
     (let atn_model_name = (case arg_atn_name args of None \<Rightarrow> atn_default_name atn_model_fn
                            | Some nm \<Rightarrow> nm)
      in gatn_basepath (arg_dataset_name args) atn_model_name (arg_target_class_id args)
           @ atn_model_name @ ''_'' @ fmt_d (arg_target_class_id args))"






text \<open>A row carries the identifying keys of one of the trials; the invariant of the
  sweep after \<open>k\<close> trials.\<close>

definition row_of_trial :: "int set \<Rightarrow> real set \<Rightarrow> log_row \<Rightarrow> bool" where
  "row_of_trial D B r = (case r of Row d b mse ar ao rate n \<Rightarrow> d \<in> D \<and> b \<in> B)"

definition sweep_inv ::
  "int set \<Rightarrow> real set \<Rightarrow> nat \<Rightarrow> ('w, 'e) sweep_state \<Rightarrow> bool" where
  "sweep_inv D B k st \<longleftrightarrow>
     length (SUCCESS st) + length (ERRORS st) = k
     \<and> list_all sentinel (ERRORS st)
     \<and> list_all (row_of_trial D B) (ERRORS st)
     \<and> length (filter is_exception (sw_console st)) = length (ERRORS st)
     \<and> sw_log_file st = SUCCESS st"


text \<open>Calls for a run of the sweep: training fails for a \<open>beta\<close> below 0.01, scoring
  fails in the second trial.\<close>

definition demo_calls :: "(nat, string) sweep_calls" where
  "demo_calls =
     \<lparr>base_exists = (\<lambda>w d. True),
      train_base = (\<lambda>w d. Inr w),
      train_call = (\<lambda>w d b. (if b < 1/100 then Some ''diverged'' else None, Suc w)),
      scores_call = (\<lambda>w d. (if w = 2 then Inl ''no checkpoint''
                              else Inr (1/2, 1/4, 1/4, 3/4, [0, 2]), w))\<rparr>"


section \<open>A small instance\<close>

text \<open>
  A two-class problem on signals with one time step and one channel, used to run the
  definitions on concrete inputs. The classifier answers class 0 below the threshold 10
  and class 1 from it on; the ATN adds its single variable times the gradient batch to the
  input, and a training step doubles the variable.
\<close>

definition demo_clf_model :: clf_model where
  "demo_clf_model =
     \<lparr>clf_call = map (\<lambda>s. if hd (hd s) < 10 then [3/4, 1/4] else [1/4, 3/4]),
      clf_input_grad = (\<lambda>t. map (map (map (\<lambda>v. if v < 3 then 10 else 0))))\<rparr>"

definition demo_clf :: "unit clf_arch" where
  "demo_clf = \<lparr>clf_default_name = ''clf'', clf_init = (), clf_live = (\<lambda>u. demo_clf_model)\<rparr>"

definition demo_atn :: "real atn_arch" where
  "demo_atn =
     \<lparr>atn_default_name = ''atn'', atn_init = 1,
      atn_live = (\<lambda>p training x g. map2 (map2 (map2 (\<lambda>u v. u + p * v))) x g),
      atn_update = (\<lambda>clf t alpha beta x p. 2 * p)\<rparr>"

definition demo_X :: tensor3 where
  "demo_X = [[[0]], [[1]], [[2]], [[3]]]"

definition demo_y :: matrix where
  "demo_y = [[1, 0], [0, 1], [1, 0], [0, 1]]"

definition demo_env :: env where
  "demo_env = \<lparr>load_splits = (\<lambda>name. ((demo_X, demo_y), (demo_X, demo_y))),
               shuffler = (\<lambda>seed. rev), shuffle_default = False\<rparr>"

definition demo_args :: gatn_args where
  "demo_args = \<lparr>arg_dataset_name = ''ucr/21'', arg_target_class_id = 1, arg_batchsize = 128,
                arg_atn_name = None, arg_clf_name = None\<rparr>"

definition demo_world :: "(unit, real) world" where
  "demo_world = \<lparr>dirs = {}, clf_files = [''weights/ucr/21/clf/clf'' \<mapsto> ()],
                 atn_files = [''gatn_weights/ucr/21/atn_1/atn_1'' \<mapsto> 1], rng = 0\<rparr>"

subsection \<open>Facts about the primitives\<close>

lemma fold_max_Max: "fold max vs (v::real) = Max (set (v # vs))"
  by (rule Max.set_eq_fold[symmetric])

lemma reduce_max_Max: "row \<noteq> [] \<Longrightarrow> reduce_max row = Max (set row)"
proof (cases row)
  case Nil
  assume "row \<noteq> []"
  with Nil show ?thesis by simp
next
  case (Cons v vs)
  then show ?thesis using fold_max_Max[of vs v] by simp
qed

lemma norm_index_nat: "0 \<le> t \<Longrightarrow> t < int n \<Longrightarrow> norm_index n t = Some (nat t)"
  by (simp add: norm_index_def)

lemma sum_list_nonneg_update:
  assumes "list_all (\<lambda>v. 0 \<le> v) row" and "i < length row" and "0 < (w::real)"
  shows "0 < sum_list (row[i := w])"
proof -
  have nn: "\<And>v. v \<in> set (row[i := w]) \<Longrightarrow> 0 \<le> v"
    using assms(1,3) set_update_subset_insert[of row i w]
    by (auto simp: list_all_iff)
  have mem: "w \<in> set (row[i := w])"
    using assms(2) by (simp add: set_update_memI)
  have "w \<le> sum_list (row[i := w])"
    using mem nn by (simp add: member_le_sum_list)
  with assms(3) show ?thesis by linarith
qed

lemma prob_row_max_pos:
  assumes "prob_row row"
  shows "row \<noteq> [] \<and> 0 < Max (set row)"
proof -
  from assms have s: "sum_list row = 1" and nn: "list_all (\<lambda>v. 0 \<le> v) row"
    by (simp_all add: prob_row_def)
  from s have ne: "row \<noteq> []" by auto
  have pos: "\<not> Max (set row) \<le> 0"
  proof
    assume le: "Max (set row) \<le> 0"
    have "\<And>v. v \<in> set row \<Longrightarrow> v = 0"
    proof -
      fix v assume v: "v \<in> set row"
      then have "v \<le> Max (set row)" by simp
      moreover from nn v have "0 \<le> v" by (simp add: list_all_iff)
      ultimately show "v = 0" using le by linarith
    qed
    then have "sum_list row = 0" by (induction row) auto
    with s show False by simp
  qed
  from pos have "0 < Max (set row)" by (rule Orderings.linorder_class.not_le_imp_less)
  with ne show ?thesis by (rule conjI)
qed

lemma sum_list_divide: "sum_list (map (\<lambda>v. v / (c::real)) vs) = sum_list vs / c"
  by (induction vs) (simp_all add: add_divide_distrib)

lemma map2_map_right: "map2 f xs (map g xs) = map (\<lambda>x. f x (g x)) xs"
  by (induction xs) simp_all

section \<open>Target reranking: agreement with the specification\<close>

lemma assign_column_ok:
  assumes "\<forall>row \<in> set y. length row = C" and "0 \<le> t" and "t < int C"
  shows "assign_column y t (map g y) = Inr (map (\<lambda>row. row[nat t := g row]) y)"
proof -
  have idx: "\<And>row. row \<in> set y \<Longrightarrow> norm_index (length row) t = Some (nat t)"
    using assms by (simp add: norm_index_nat)
  then have "\<not> (\<exists>row \<in> set y. norm_index (length row) t = None)" by auto
  moreover have "map2 (\<lambda>row v. row[the (norm_index (length row) t) := v]) y (map g y)
      = map (\<lambda>row. row[nat t := g row]) y"
    unfolding map2_map_right using idx by (intro map_cong) simp_all
  ultimately show ?thesis by (simp add: assign_column_def)
qed

lemma rerank_row_sum:
  assumes "prob_row row" and "t < length row" and "1 < alpha"
  shows "sum_list (spec_rerank_row t alpha row) = 1"
proof -
  from prob_row_max_pos[OF assms(1)] have m: "0 < Max (set row)" by simp
  with assms(3) have "0 < alpha * Max (set row)" by simp
  moreover from assms(1) have "list_all (\<lambda>v. 0 \<le> v) row" by (simp add: prob_row_def)
  ultimately have "0 < sum_list (row[t := alpha * Max (set row)])"
    using assms(2) by (intro sum_list_nonneg_update)
  then show ?thesis
    by (simp add: spec_rerank_row_def Let_def sum_list_divide)
qed

lemma reranking_rows:
  assumes len: "\<forall>row \<in> set y. length row = C"
    and t: "0 \<le> t" "t < int C"
  shows "reranking y t alpha = Inr (map (spec_rerank_row (nat t) alpha) y)"
proof -
  have asg: "assign_column y t (map (\<lambda>row. alpha * reduce_max row) y)
      = Inr (map (\<lambda>row. row[nat t := alpha * reduce_max row]) y)"
    by (rule assign_column_ok[OF len t])
  have row_eq: "\<And>row. row \<in> set y \<Longrightarrow>
      (let w = row[nat t := alpha * reduce_max row] in map (\<lambda>v. v / reduce_sum w) w)
        = spec_rerank_row (nat t) alpha row"
  proof -
    fix row assume "row \<in> set y"
    with len t have "row \<noteq> []" by auto
    then show "(let w = row[nat t := alpha * reduce_max row] in map (\<lambda>v. v / reduce_sum w) w)
        = spec_rerank_row (nat t) alpha row"
      by (simp add: spec_rerank_row_def reduce_max_Max reduce_sum_def Let_def)
  qed
  have "reranking y t alpha
      = Inr (map (\<lambda>row. let w = row[nat t := alpha * reduce_max row]
                         in map (\<lambda>v. v / reduce_sum w) w) y)"
    by (simp add: reranking_def asg Let_def comp_def)
  also have "\<dots> = Inr (map (spec_rerank_row (nat t) alpha) y)"
    using row_eq by (simp cong: map_cong)
  finally show ?thesis .
qed

text \<open>
  Claim C2. For a matrix \<open>y\<close> of probability rows with \<open>C\<close> columns, a target class
  \<open>0 \<le> t < C\<close> and \<open>alpha > 1\<close>, \<open>reranking\<close> returns, row by row, the row with entry
  \<open>t\<close> set to \<open>alpha\<close> times the maximum of the row and then divided by its new sum, and
  every row of the result sums to 1.
\<close>

theorem reranking_matches_spec:
  assumes rows: "\<forall>row \<in> set y. length row = C \<and> prob_row row"
    and t: "0 \<le> t" "t < int C" and alpha: "1 < alpha"
  shows "\<exists>y'. reranking y t alpha = Inr y'
           \<and> y' = map (spec_rerank_row (nat t) alpha) y
           \<and> list_all (\<lambda>row'. sum_list row' = 1) y'"
proof -
  from rows have len: "\<forall>row \<in> set y. length row = C" by simp
  have code: "reranking y t alpha = Inr (map (spec_rerank_row (nat t) alpha) y)"
    by (rule reranking_rows[OF len t])
  have "\<And>row. row \<in> set y \<Longrightarrow> sum_list (spec_rerank_row (nat t) alpha row) = 1"
  proof -
    fix row assume r: "row \<in> set y"
    with rows have "prob_row row" "length row = C" by simp_all
    moreover with t have "nat t < length row" by simp
    ultimately show "sum_list (spec_rerank_row (nat t) alpha row) = 1"
      using alpha by (intro rerank_row_sum)
  qed
  then have "list_all (\<lambda>row'. sum_list row' = 1) (map (spec_rerank_row (nat t) alpha) y)"
    by (simp add: list_all_iff)
  with code show ?thesis by simp
qed

theorem reranking_matches_spec_witness:
  "reranking [[1/2, 1/4, 1/4], [0, 1, 0]] 0 (3/2) = Inr [[3/5, 1/5, 1/5], [3/5, 2/5, 0]]
   \<and> map (spec_rerank_row 0 (3/2)) [[1/2, 1/4, 1/4], [0, 1, 0]]
       = [[3/5, 1/5, 1/5], [3/5, 2/5, 0]]"
  using reranking_matches_spec[of "[[1/2, 1/4, 1/4], [0, 1, 0]]" 3 0 "3/2"]
  by (simp add: prob_row_def spec_rerank_row_def)

section \<open>Loss assembler: agreement with the specification\<close>


lemma concat_map2_rows:
  assumes "list_all2 (\<lambda>r r'. length r = length r') s s'"
  shows "concat (map2 (map2 f) s s') = map2 f (concat s) (concat s')
         \<and> length (concat s) = length (concat s')"
  using assms by (induction rule: list_all2_induct) simp_all

lemma concat_map2_samples:
  assumes "list_all2 (list_all2 (\<lambda>r r'. length r = length r')) x x'"
  shows "concat (concat (map2 (map2 (map2 f)) x x')) = map2 f (concat (concat x)) (concat (concat x'))
         \<and> length (concat (concat x)) = length (concat (concat x'))"
  using assms
proof (induction rule: list_all2_induct)
  case Nil
  then show ?case by simp
next
  case (Cons s xs s' xs')
  from concat_map2_rows[OF Cons(1), of f] Cons(3) show ?case by simp
qed

lemma sum_rows_concat:
  assumes "list_all2 (\<lambda>r r'. length r = length r') a b"
  shows "(\<Sum>(r, r') \<leftarrow> zip a b. sum_list (map2 g r r')) = sum_list (map2 g (concat a) (concat b))"
  using assms
proof (induction rule: list_all2_induct)
  case Nil
  then show ?case by simp
next
  case (Cons r a r' b)
  from Cons(2) have "length (concat a) = length (concat b)"
    using concat_map2_rows by blast
  with Cons show ?case by simp
qed

lemma length_concat_const:
  assumes "\<forall>r \<in> set a. length r = C"
  shows "length (concat a) = length a * C"
  using assms by (induction a) simp_all

lemma sum_list_map_divide:
  "sum_list (map (\<lambda>z. h z / (c::real)) zs) = sum_list (map h zs) / c"
  by (induction zs) (simp_all add: add_divide_distrib)

lemma mean_of_row_means:
  assumes "list_all2 (\<lambda>r r'. length r = C \<and> length r' = C) a b"
  shows "reduce_mean (map2 (\<lambda>r r'. reduce_mean (map2 g r r')) a b)
         = sum_list (map2 g (concat a) (concat b)) / real (length (zip (concat a) (concat b)))"
proof -
  have eqlen: "list_all2 (\<lambda>r r'. length r = length r') a b"
    using assms by (rule list_all2_mono) simp
  have la: "\<forall>r \<in> set a. length r = C" and lb: "\<forall>r \<in> set b. length r = C"
    using assms by (auto simp: list_all2_conv_all_nth in_set_conv_nth)
  have n: "length a = length b" using assms by (rule list_all2_lengthD)
  have rows: "map2 (\<lambda>r r'. reduce_mean (map2 g r r')) a b
      = map (\<lambda>(r, r'). sum_list (map2 g r r') / real C) (zip a b)"
  proof (intro map_cong refl)
    fix z assume z: "z \<in> set (zip a b)"
    obtain r r' where zz: "z = (r, r')" by (cases z)
    with z have "r \<in> set a" "r' \<in> set b"
      by (auto dest: set_zip_leftD set_zip_rightD)
    with la lb have "length r = C" "length r' = C" by simp_all
    then show "(case z of (r, r') \<Rightarrow> reduce_mean (map2 g r r'))
        = (case z of (r, r') \<Rightarrow> sum_list (map2 g r r') / real C)"
      by (simp add: zz reduce_mean_def)
  qed
  have "sum_list (map (\<lambda>(r, r'). sum_list (map2 g r r') / real C) (zip a b))
      = (\<Sum>(r, r') \<leftarrow> zip a b. sum_list (map2 g r r')) / real C"
    using sum_list_map_divide[of "\<lambda>(r, r'). sum_list (map2 g r r')" "real C" "zip a b"]
    by (simp add: case_prod_unfold)
  then have "reduce_mean (map2 (\<lambda>r r'. reduce_mean (map2 g r r')) a b)
      = sum_list (map2 g (concat a) (concat b)) / real C / real (length a)"
    unfolding rows by (simp add: reduce_mean_def sum_rows_concat[OF eqlen] n)
  moreover have "length (zip (concat a) (concat b)) = length a * C"
    using length_concat_const[OF la] length_concat_const[OF lb] n by simp
  ultimately show ?thesis by (simp add: mult.commute)
qed



lemma spec_mean_sq_map2:
  "spec_mean_sq us vs = sum_list (map2 (\<lambda>u v. (u - v)\<^sup>2) us vs) / real (length (zip us vs))"
  by (simp add: spec_mean_sq_def)

lemma loss_x_spec:
  assumes "list_all2 (list_all2 (\<lambda>r r'. length r = length r')) x x'"
  shows "reduce_mean (concat (concat (squared_difference x x')))
         = spec_mean_sq (concat (concat x)) (concat (concat x'))"
  using concat_map2_samples[OF assms, of "\<lambda>u v. (u - v)\<^sup>2"]
  by (simp add: squared_difference_def reduce_mean_def spec_mean_sq_map2)

lemma loss_y_spec:
  assumes "list_all2 (\<lambda>r r'. length r = C \<and> length r' = C) a b"
  shows "reduce_mean (mean_squared_error a b) = spec_mean_sq (concat a) (concat b)"
proof -
  have "(\<lambda>u v. (v - u)\<^sup>2) = (\<lambda>u v. (u - v :: real)\<^sup>2)"
    by (intro ext) (simp add: power2_commute)
  then show ?thesis
    using mean_of_row_means[OF assms, of "\<lambda>u v. (u - v)\<^sup>2"]
    by (simp add: mean_squared_error_def spec_mean_sq_map2)
qed

lemma length_spec_rerank_row: "length (spec_rerank_row t alpha row) = length row"
  by (simp add: spec_rerank_row_def Let_def)

lemma select_column_ok:
  assumes "\<forall>row \<in> set out. length row = C" and "0 \<le> t" and "t < int C"
  shows "\<exists>col. select_column out t = Inr col"
  using assms by (auto simp: select_column_def norm_index_nat)

text \<open>
  Claim C1. For a training batch \<open>x\<close> of \<open>train_gatn\<close>, with \<open>x_adv\<close> the output of the
  ATN, \<open>y_pred_clean\<close> the output of the frozen classifier on \<open>x\<close> and \<open>y_pred_adv\<close> its
  output on \<open>x_adv\<close>, the scalar loss of the batch is
  \<open>beta * mean((x - x_adv)^2) + mean_squared_error(rerank(y_pred_clean, t, alpha), y_pred_adv)\<close>,
  and this is the value the running mean of the epoch receives. The tensors have the
  shapes the models give them: \<open>x_adv\<close> that of \<open>x\<close>, both predictions \<open>C\<close> columns and
  equally many rows, and the target class is one of the columns.
\<close>

theorem train_batch_loss_matches_spec:
  assumes clean: "y_pred_clean = clf_call clf x"
    and adv: "x_adv = atn_live atn p True x (clf_input_grad clf t x)"
    and pred: "y_pred_adv = clf_call clf x_adv"
    and shape_x: "list_all2 (list_all2 (\<lambda>r r'. length r = length r')) x x_adv"
    and shape_y: "list_all2 (\<lambda>r r'. length r = C \<and> length r' = C) y_pred_clean y_pred_adv"
    and t: "0 \<le> t" "t < int C"
  shows "gatn_batch_loss clf (atn_live atn p) t alpha beta x
           = Inr (spec_assemble_loss x x_adv y_pred_adv y_pred_clean (nat t) alpha beta)
         \<and> train_pass clf atn t alpha beta (Suc i) i ((x, y) # rest) (p, m)
           = train_pass clf atn t alpha beta (Suc i) (Suc i) rest
               (atn_update atn clf t alpha beta x p,
                update_state m (spec_assemble_loss x x_adv y_pred_adv y_pred_clean (nat t) alpha beta))"
proof -
  have len: "\<forall>row \<in> set y_pred_clean. length row = C"
    using shape_y by (auto simp: list_all2_conv_all_nth in_set_conv_nth)
  obtain col where "select_column y_pred_clean t = Inr col"
    using select_column_ok[OF len t] by blast
  then have grad: "compute_target_gradient x clf t = Inr (y_pred_clean, clf_input_grad clf t x)"
    by (simp add: compute_target_gradient_def clean)
  have rr: "reranking y_pred_clean t alpha = Inr (map (spec_rerank_row (nat t) alpha) y_pred_clean)"
    by (rule reranking_rows[OF len t])
  have shape_r: "list_all2 (\<lambda>r r'. length r = C \<and> length r' = C)
                   (map (spec_rerank_row (nat t) alpha) y_pred_clean) y_pred_adv"
    using shape_y by (simp add: list_all2_map1 length_spec_rerank_row)
  have ly: "targetted_mse y_pred_adv y_pred_clean t alpha
      = Inr (spec_mean_sq (concat (map (spec_rerank_row (nat t) alpha) y_pred_clean))
               (concat y_pred_adv))"
    by (simp add: targetted_mse_def rr loss_y_spec[OF shape_r])
  have loss: "gatn_batch_loss clf (atn_live atn p) t alpha beta x
      = Inr (spec_assemble_loss x x_adv y_pred_adv y_pred_clean (nat t) alpha beta)"
    using ly loss_x_spec[OF shape_x]
    by (simp add: gatn_batch_loss_def grad adv[symmetric] pred[symmetric]
        spec_assemble_loss_def reduce_sum_def Let_def)
  then show ?thesis
    by (simp add: reduce_mean_def Let_def)
qed

theorem train_batch_loss_matches_spec_witness:
  "gatn_batch_loss demo_clf_model (atn_live demo_atn 1) 1 (3/2) (1/100) [[[0]], [[3]]]
     = Inr (229/400)
   \<and> spec_assemble_loss [[[0]], [[3]]] [[[10]], [[3]]] [[1/4, 3/4], [3/4, 1/4]]
       [[3/4, 1/4], [3/4, 1/4]] 1 (3/2) (1/100) = 229/400"
  using train_batch_loss_matches_spec[of "[[3/4, 1/4], [3/4, 1/4]]" demo_clf_model
      "[[[0]], [[3]]]" "[[[10]], [[3]]]" demo_atn 1 1 "[[1/4, 3/4], [3/4, 1/4]]" 2
      "3/2" "1/100" 0 "[]" "[]" Mean]
  by (simp add: demo_clf_model_def demo_atn_def spec_assemble_loss_def spec_mean_sq_def
      spec_rerank_row_def power2_eq_square)

section \<open>Cleaning of the training data\<close>


lemma mask_select_map:
  assumes "length xs = length ys"
  shows "mask_select xs (map P ys) = map fst (filter (\<lambda>(x, y). P y) (zip xs ys))
       \<and> mask_select ys (map P ys) = map snd (filter (\<lambda>(x, y). P y) (zip xs ys))"
  using assms by (induction xs ys rule: list_induct2) (simp_all add: mask_select_def)

text \<open>
  Claim C8. The cleaning step of \<open>train_gatn\<close> keeps exactly the samples whose argmax
  label differs from \<open>target_class_id\<close>, in their order: the training split that results
  holds no sample whose label is the target class.
\<close>

theorem clean_data_removes_target:
  assumes "length X_train = length y_train"
    and "clean_data X_train y_train t = (X', y')"
  shows "length X' = length y'
       \<and> zip X' y' = filter (\<lambda>(x, row). int (argmax row) \<noteq> t) (zip X_train y_train)
       \<and> filter (\<lambda>row. int (argmax row) = t) y' = []"
proof -
  let ?kept = "filter (\<lambda>(x, row). int (argmax row) \<noteq> t) (zip X_train y_train)"
  from mask_select_map[OF assms(1), of "\<lambda>row. int (argmax row) \<noteq> t"] assms(2)
  have X': "X' = map fst ?kept" and y': "y' = map snd ?kept"
    by (simp_all add: clean_data_def Let_def)
  have "zip X' y' = ?kept" unfolding X' y' by (simp add: zip_map_fst_snd)
  moreover have "filter (\<lambda>row. int (argmax row) = t) y' = []"
    unfolding y' by (auto simp: filter_empty_conv)
  ultimately show ?thesis by (simp add: X' y')
qed

theorem clean_data_removes_target_witness:
  "clean_data demo_X demo_y 1 = ([[[0]], [[2]]], [[1, 0], [1, 0]])
   \<and> clean_data [[[5]], [[6]]] [[0, 1], [0, 1]] 1 = ([], [])"
  using clean_data_removes_target[of demo_X demo_y 1 "[[[0]], [[2]]]" "[[1, 0], [1, 0]]"]
  by (simp add: clean_data_def mask_select_def demo_X_def demo_y_def)
section \<open>Training loop: the checkpoint protocol\<close>














section \<open>Checkpoint restore at the entry points\<close>


lemma makedirs_files [simp]:
  "clf_files (makedirs p w) = clf_files w" "atn_files (makedirs p w) = atn_files w"
  "rng (makedirs p w) = rng w"
  by (simp_all add: makedirs_def)



lemma restore_Inr_iff: "(restore files path = Inr v) = (files path = Some v)"
  by (simp add: restore_def split: option.splits)



























lemma makedirs_atn_files_update:
  "makedirs p (w\<lparr>atn_files := f\<rparr>) = (makedirs p w)\<lparr>atn_files := f\<rparr>"
  by (simp add: makedirs_def)










section \<open>Hyperparameter sweep: failed trials\<close>

lemma trial_failure:
  assumes "(if base_exists calls (sw_world st) d then Inr (sw_world st)
            else train_base calls (sw_world st) d) = Inr w0"
    and "train_call calls w0 d b = (Some e, w2)
         \<or> (\<exists>w1. train_call calls w0 d b = (None, w1) \<and> scores_call calls w1 d = (Inl e, w2))"
  shows "trial calls d b st
       = Inr (st\<lparr>sw_world := w2, ERRORS := ERRORS st @ [Row d b (- 1) (- 1) (- 1) (- 1) (- 1)],
                 sw_console := sw_console st @ [PrintException e]\<rparr>)"
  using assms by (auto simp: trial_def Let_def)

lemma trial_inv:
  assumes base: "\<forall>w d. base_exists calls w d \<or> (\<exists>w'. train_base calls w d = Inr w')"
    and inv: "sweep_inv D B k st" and d: "d \<in> D" and b: "b \<in> B"
  shows "\<exists>st'. trial calls d b st = Inr st' \<and> sweep_inv D B (Suc k) st'"
proof -
  from base obtain w0 where w0: "(if base_exists calls (sw_world st) d then Inr (sw_world st)
            else train_base calls (sw_world st) d) = Inr w0"
    by (metis (full_types))
  obtain r1 w1 where t: "train_call calls w0 d b = (r1, w1)" by (metis surj_pair)
  obtain r2 w2 where s: "scores_call calls w1 d = (r2, w2)" by (metis surj_pair)
  show ?thesis
  proof (cases r1)
    case (Some e)
    with w0 t inv d b show ?thesis
      by (simp add: trial_def Let_def sweep_inv_def sentinel_def row_of_trial_def)
  next
    case None
    show ?thesis
    proof (cases r2)
      case (Inl e)
      with None w0 t s inv d b show ?thesis
        by (simp add: trial_def Let_def sweep_inv_def sentinel_def row_of_trial_def)
    next
      case (Inr sc)
      with None w0 t s inv d b show ?thesis
        by (simp add: trial_def Let_def sweep_inv_def split: prod.splits)
    qed
  qed
qed

lemma sweep_betas_inv:
  assumes base: "\<forall>w d. base_exists calls w d \<or> (\<exists>w'. train_base calls w d = Inr w')"
    and d: "d \<in> D"
  shows "sweep_inv D B k st \<Longrightarrow> set bs \<subseteq> B \<Longrightarrow>
         \<exists>st'. sweep_betas calls d bs st = Inr st' \<and> sweep_inv D B (k + length bs) st'"
proof (induction bs arbitrary: k st)
  case Nil
  then show ?case by simp
next
  case (Cons b bs)
  from Cons.prems have "b \<in> B" by simp
  from trial_inv[OF base Cons.prems(1) d this] obtain s1 where
    s1: "trial calls d b st = Inr s1" and i1: "sweep_inv D B (Suc k) s1" by blast
  from Cons.prems have "set bs \<subseteq> B" by simp
  from Cons.IH[OF i1 this] s1 show ?case by simp
qed

lemma sweep_inv_all:
  assumes base: "\<forall>w d. base_exists calls w d \<or> (\<exists>w'. train_base calls w d = Inr w')"
  shows "sweep_inv D (set BETAS) k st \<Longrightarrow> set ds \<subseteq> D \<Longrightarrow>
         \<exists>st'. sweep calls ds BETAS st = Inr st'
               \<and> sweep_inv D (set BETAS) (k + length ds * length BETAS) st'"
proof (induction ds arbitrary: k st)
  case Nil
  then show ?case by simp
next
  case (Cons d ds)
  from Cons.prems have "d \<in> D" by simp
  from sweep_betas_inv[OF base this Cons.prems(1), of BETAS] obtain s1 where
    s1: "sweep_betas calls d BETAS st = Inr s1"
    and i1: "sweep_inv D (set BETAS) (k + length BETAS) s1" by blast
  from Cons.prems have "set ds \<subseteq> D" by simp
  from Cons.IH[OF i1 this] s1 show ?case by (simp add: add.assoc)
qed

lemma trial_abort:
  assumes "trial calls d b st = Inl e"
  shows "\<exists>w d'. \<not> base_exists calls w d' \<and> train_base calls w d' = Inl e"
  using assms
  by (auto simp: trial_def Let_def split: if_splits sum.splits prod.splits option.splits)

lemma sweep_betas_abort:
  "sweep_betas calls d bs st = Inl e \<Longrightarrow>
   \<exists>w d'. \<not> base_exists calls w d' \<and> train_base calls w d' = Inl e"
proof (induction bs arbitrary: st)
  case Nil
  then show ?case by simp
next
  case (Cons b bs)
  then show ?case
    by (cases "trial calls d b st") (auto dest: trial_abort)
qed

lemma sweep_abort:
  "sweep calls ds BETAS st = Inl e \<Longrightarrow>
   \<exists>w d'. \<not> base_exists calls w d' \<and> train_base calls w d' = Inl e"
proof (induction ds arbitrary: st)
  case Nil
  then show ?case by simp
next
  case (Cons d ds)
  then show ?case
    by (cases "sweep_betas calls d BETAS st") (auto dest: sweep_betas_abort)
qed

text \<open>
  Claim C10. In the hyperparameter sweep an exception raised by a trial (by its call of
  \<open>train_gatn\<close> or of \<open>train_scores_gatn\<close>) is caught at the trial: a row with the keys
  of the trial and \<open>-1\<close> in every other field is added to \<open>ERRORS\<close>, the exception is
  printed, and the sweep goes on. Training the base classifier stands before the
  \<open>try\<close> and is the only call that can end the sweep early; as long as it does not
  raise, the sweep runs every trial of every dataset and \<open>beta\<close> to the end, each trial
  leaving one row in \<open>SUCCESS\<close> or in \<open>ERRORS\<close>.
\<close>

theorem sweep_survives_failed_trials:
  assumes base: "\<forall>w d. base_exists calls w d \<or> (\<exists>w'. train_base calls w d = Inr w')"
  shows "(\<exists>st'. sweep calls datasets BETAS (sweep_start w) = Inr st'
            \<and> length (SUCCESS st') + length (ERRORS st') = length datasets * length BETAS
            \<and> list_all sentinel (ERRORS st')
            \<and> list_all (row_of_trial (set datasets) (set BETAS)) (ERRORS st')
            \<and> length (filter is_exception (sw_console st')) = length (ERRORS st')
            \<and> sw_log_file st' = SUCCESS st')
       \<and> ((if base_exists calls (sw_world st) d then Inr (sw_world st)
            else train_base calls (sw_world st) d) = Inr w0
           \<and> (train_call calls w0 d b = (Some e, w2)
               \<or> (\<exists>w1. train_call calls w0 d b = (None, w1)
                        \<and> scores_call calls w1 d = (Inl e, w2))) \<longrightarrow>
           trial calls d b st
             = Inr (st\<lparr>sw_world := w2,
                       ERRORS := ERRORS st @ [Row d b (- 1) (- 1) (- 1) (- 1) (- 1)],
                       sw_console := sw_console st @ [PrintException e]\<rparr>))
       \<and> (sweep calls datasets' BETAS' st1 = Inl e1 \<longrightarrow>
           (\<exists>w1 d1. \<not> base_exists calls w1 d1 \<and> train_base calls w1 d1 = Inl e1))"
proof -
  have "sweep_inv (set datasets) (set BETAS) 0 (sweep_start w)"
    by (simp add: sweep_inv_def sweep_start_def)
  from sweep_inv_all[OF base this, of datasets]
  have whole: "\<exists>st'. sweep calls datasets BETAS (sweep_start w) = Inr st'
            \<and> length (SUCCESS st') + length (ERRORS st') = length datasets * length BETAS
            \<and> list_all sentinel (ERRORS st')
            \<and> list_all (row_of_trial (set datasets) (set BETAS)) (ERRORS st')
            \<and> length (filter is_exception (sw_console st')) = length (ERRORS st')
            \<and> sw_log_file st' = SUCCESS st'"
    by (simp add: sweep_inv_def)
  have one: "(if base_exists calls (sw_world st) d then Inr (sw_world st)
            else train_base calls (sw_world st) d) = Inr w0
           \<and> (train_call calls w0 d b = (Some e, w2)
               \<or> (\<exists>w1. train_call calls w0 d b = (None, w1)
                        \<and> scores_call calls w1 d = (Inl e, w2))) \<longrightarrow>
           trial calls d b st
             = Inr (st\<lparr>sw_world := w2,
                       ERRORS := ERRORS st @ [Row d b (- 1) (- 1) (- 1) (- 1) (- 1)],
                       sw_console := sw_console st @ [PrintException e]\<rparr>)"
    by (intro impI, elim conjE) (rule trial_failure)
  have early: "sweep calls datasets' BETAS' st1 = Inl e1 \<longrightarrow>
           (\<exists>w1 d1. \<not> base_exists calls w1 d1 \<and> train_base calls w1 d1 = Inl e1)"
    by (rule impI) (rule sweep_abort)
  from whole one early show ?thesis by (intro conjI)
qed

lemma demo_sweep:
  "sweep demo_calls [21] [1/10, 1/20, 1/1000] (sweep_start 0)
   = Inr \<lparr>sw_world = 3,
          sw_log_file = [Row 21 (1/10) (1/2) (1/4) (1/4) (3/4) 2],
          SUCCESS = [Row 21 (1/10) (1/2) (1/4) (1/4) (3/4) 2],
          ERRORS = [Row 21 (1/20) (- 1) (- 1) (- 1) (- 1) (- 1),
                    Row 21 (1/1000) (- 1) (- 1) (- 1) (- 1) (- 1)],
          sw_console = [PrintFinished 21 (1/10), PrintException ''no checkpoint'',
                        PrintException ''diverged'']\<rparr>"
  by code_simp

theorem sweep_survives_failed_trials_witness:
  "sweep demo_calls [21] [1/10, 1/20, 1/1000] (sweep_start 0)
   = Inr \<lparr>sw_world = 3,
          sw_log_file = [Row 21 (1/10) (1/2) (1/4) (1/4) (3/4) 2],
          SUCCESS = [Row 21 (1/10) (1/2) (1/4) (1/4) (3/4) 2],
          ERRORS = [Row 21 (1/20) (- 1) (- 1) (- 1) (- 1) (- 1),
                    Row 21 (1/1000) (- 1) (- 1) (- 1) (- 1) (- 1)],
          sw_console = [PrintFinished 21 (1/10), PrintException ''no checkpoint'',
                        PrintException ''diverged'']\<rparr>
   \<and> trial demo_calls 21 (1/1000) (sweep_start 7)
     = Inr \<lparr>sw_world = 8, sw_log_file = [], SUCCESS = [],
            ERRORS = [Row 21 (1/1000) (- 1) (- 1) (- 1) (- 1) (- 1)],
            sw_console = [PrintException ''diverged'']\<rparr>"
proof -
  have base: "\<forall>w d. base_exists demo_calls w d \<or> (\<exists>w'. train_base demo_calls w d = Inr w')"
    by (simp add: demo_calls_def)
  define st0 :: "(nat, string) sweep_state" where "st0 = sweep_start 7"
  have "trial demo_calls 21 (1/1000) st0
     = Inr (st0\<lparr>sw_world := 8,
              ERRORS := ERRORS st0 @ [Row 21 (1/1000) (- 1) (- 1) (- 1) (- 1) (- 1)],
              sw_console := sw_console st0 @ [PrintException ''diverged'']\<rparr>)"
    by (rule sweep_survives_failed_trials[OF base, THEN conjunct2, THEN conjunct1, rule_format])
       (simp add: demo_calls_def sweep_start_def st0_def)
  then show ?thesis using demo_sweep by (simp add: sweep_start_def st0_def)
qed

section \<open>Evaluation engine: the loop and its accumulators\<close>


lemma scores_loop_take:
  "scores_loop clf atn t bs (Some n) i batches st
   = scores_loop clf atn t bs None i (take (n - i) batches) st"
proof (induction batches arbitrary: i st)
  case Nil
  then show ?case by simp
next
  case (Cons b batches)
  show ?case
  proof (cases "n \<le> i")
    case True
    then show ?thesis by simp
  next
    case False
    then have "n - i = Suc (n - Suc i)" by simp
    then have "take (n - i) (b # batches) = b # take (n - Suc i) batches"
      by (simp only: take_Suc_Cons)
    with False Cons.IH[of "Suc i"] show ?thesis
      by (simp split: sum.splits)
  qed
qed

lemma scores_loop_None:
  "scores_loop clf atn t bs None i batches st = Inr st' \<Longrightarrow>
   \<exists>bes. map (eval_batch clf atn t) batches = map Inr bes
         \<and> st' = run_steps bs (zip batches bes) st"
proof (induction batches arbitrary: i st)
  case Nil
  then show ?case by (simp add: run_steps_def)
next
  case (Cons b batches)
  from Cons.prems obtain be where be: "eval_batch clf atn t b = Inr be"
    and rest: "scores_loop clf atn t bs None (Suc i) batches (scores_step bs st (snd b) be) = Inr st'"
    by (auto split: sum.splits)
  from Cons.IH[OF rest] obtain bes where
    "map (eval_batch clf atn t) batches = map Inr bes"
    "st' = run_steps bs (zip batches bes) (scores_step bs st (snd b) be)"
    by blast
  with be have "map (eval_batch clf atn t) (b # batches) = map Inr (be # bes)
      \<and> st' = run_steps bs (zip (b # batches) (be # bes)) st"
    by (simp add: run_steps_def)
  then show ?case by blast
qed

lemma eval_batch_Inr:
  assumes "eval_batch clf atn t (x, y) = Inr be"
  shows "be_y_test_pred be = clf_call clf x"
    and "be_y_pred_adversarial be = adversarial_pred clf atn t x"
    and "be_acc_val_white be = fst (target_accuracy y (adversarial_pred clf atn t x) t)"
    and "be_target_rate be = snd (target_accuracy y (adversarial_pred clf atn t x) t)"
    and "be_acc_val_black be = fst (target_accuracy (clf_call clf x) (adversarial_pred clf atn t x) t)"
    and "be_x_mse be = reduce_mean (concat (mean_squared_error3 x (atn False x (clf_input_grad clf t x))))"
  using assms
  by (auto simp: eval_batch_def Let_def adversarial_pred_def compute_target_gradient_def
      split: sum.splits prod.splits)

lemma run_steps_snoc:
  "run_steps bs (pairs @ [(b, be)]) st = scores_step bs (run_steps bs pairs st) (snd b) be"
  by (simp add: run_steps_def)

lemma run_steps_batch_id:
  "st_batch_id (run_steps bs pairs st) = st_batch_id st + length pairs"
  by (induction pairs rule: rev_induct) (auto simp: run_steps_def scores_step_def)

lemma run_steps_ids:
  "st_adversary_ids (run_steps bs pairs st)
   = st_adversary_ids st
     @ concat (map (\<lambda>(k, (b, be)). find_adversary_ids (st_batch_id st + k) bs (snd b)
                       (be_y_test_pred be) (be_y_pred_adversarial be))
                 (enumerate 0 pairs))"
proof (induction pairs rule: rev_induct)
  case Nil
  then show ?case by (simp add: run_steps_def)
next
  case (snoc p pairs)
  obtain b be where p: "p = (b, be)" by (cases p)
  show ?case
    unfolding p run_steps_snoc
    by (simp add: scores_step_def snoc.IH run_steps_batch_id enumerate_append_eq)
qed

lemma run_steps_means:
  "total (mse_mean (run_steps bs pairs st)) = total (mse_mean st) + sum_list (map (\<lambda>p. be_x_mse (snd p)) pairs)"
  "count (mse_mean (run_steps bs pairs st)) = count (mse_mean st) + length pairs"
  "total (acc_realistic_mean (run_steps bs pairs st))
     = total (acc_realistic_mean st) + sum_list (map (\<lambda>p. be_acc_val_white (snd p)) pairs)"
  "count (acc_realistic_mean (run_steps bs pairs st)) = count (acc_realistic_mean st) + length pairs"
  "total (acc_optimistic_mean (run_steps bs pairs st))
     = total (acc_optimistic_mean st) + sum_list (map (\<lambda>p. be_acc_val_black (snd p)) pairs)"
  "count (acc_optimistic_mean (run_steps bs pairs st)) = count (acc_optimistic_mean st) + length pairs"
  "total (target_rate_mean (run_steps bs pairs st))
     = total (target_rate_mean st) + sum_list (map (\<lambda>p. be_target_rate (snd p)) pairs)"
  "count (target_rate_mean (run_steps bs pairs st)) = count (target_rate_mean st) + length pairs"
  by (induction pairs rule: rev_induct;
      auto simp: run_steps_def scores_step_def update_state_def)+



lemma iterate_seed:
  "snd (iterate shf seed ds) = (if ds_shuffle ds then Suc seed else seed)"
  by (simp add: iterate_def Let_def)

lemma scores_gatn_Inr:
  assumes "scores_gatn which e atn clf args sh w = Inr (sc, w')"
  shows "\<exists>cv av st.
           clf_files w (clf_ckpt_path clf args) = Some cv
         \<and> atn_files w (atn_ckpt_path atn args) = Some av
         \<and> eval_batchsize e args \<noteq> 0
         \<and> scores_loop (clf_live clf cv) (atn_live atn av) (arg_target_class_id args)
              (eval_batchsize e args) None 0 (pass_batches which e args sh (rng w)) scores_init
             = Inr st
         \<and> sc = (result (mse_mean st), result (acc_realistic_mean st),
                 result (acc_optimistic_mean st), result (target_rate_mean st),
                 st_adversary_ids st)
         \<and> clf_files w' = clf_files w \<and> atn_files w' = atn_files w
         \<and> rng w' = (if sh then Suc (rng w) else rng w)"
proof -
  obtain X_train y_train X_test y_test where
    ld: "load_splits e (arg_dataset_name args) = ((X_train, y_train), (X_test, y_test))"
    by (metis surj_pair)
  let ?bs = "min (arg_batchsize args) (length X_train)"
  let ?n = "case which of TrainSplit \<Rightarrow> length X_train | TestSplit \<Rightarrow> length X_test"
  have bs: "eval_batchsize e args = ?bs" by (simp add: eval_batchsize_def ld)
  from assms obtain nb where nb: "num_batches ?n ?bs = Inr nb"
    by (auto simp: scores_gatn_def ld Let_def split: sum.splits)
  then have nz: "?bs \<noteq> 0" and nbv: "nb = ?n div ?bs + (if ?n mod ?bs \<noteq> 0 then 1 else 0)"
    by (auto simp: num_batches_def split: if_splits)
  have pb: "pass_batches which e args sh (rng w)
      = take nb (fst (iterate (shuffler e) (rng w)
          (case which of
             TrainSplit \<Rightarrow> \<lparr>ds_X = X_train, ds_y = y_train, ds_batch_size = ?bs, ds_shuffle = sh\<rparr>
           | TestSplit \<Rightarrow> \<lparr>ds_X = X_test, ds_y = y_test, ds_batch_size = ?bs, ds_shuffle = sh\<rparr>)))"
    by (cases which) (simp_all add: pass_batches_def split_data_def ld bs nbv Let_def)
  have nz': "0 < arg_batchsize args" "X_train \<noteq> []" using nz by auto
  show ?thesis
  proof (cases which)
    case TrainSplit
    from nb TrainSplit have nb': "num_batches (length X_train) ?bs = Inr nb" by simp
    from pb TrainSplit have pb': "\<And>sh. pass_batches TrainSplit e args sh (rng w)
      = take nb (fst (iterate (shuffler e) (rng w)
          \<lparr>ds_X = X_train, ds_y = y_train, ds_batch_size = ?bs, ds_shuffle = sh\<rparr>))"
      by (simp add: pass_batches_def split_data_def ld bs nbv Let_def)
    from assms nz' show ?thesis
      unfolding bs TrainSplit
      by (auto simp: scores_gatn_def ld nb' pb' Let_def prepare_dataset_def clf_ckpt_path_def
          atn_ckpt_path_def restore_Inr_iff scores_loop_take iterate_seed split_beta
          split: sum.splits)
  next
    case TestSplit
    from nb TestSplit have nb': "num_batches (length X_test) ?bs = Inr nb" by simp
    from pb TestSplit have pb': "\<And>sh. pass_batches TestSplit e args sh (rng w)
      = take nb (fst (iterate (shuffler e) (rng w)
          \<lparr>ds_X = X_test, ds_y = y_test, ds_batch_size = ?bs, ds_shuffle = sh\<rparr>))"
      by (simp add: pass_batches_def split_data_def ld bs nbv Let_def)
    from assms nz' show ?thesis
      unfolding bs TestSplit
      by (auto simp: scores_gatn_def ld nb' pb' Let_def prepare_dataset_def clf_ckpt_path_def
          atn_ckpt_path_def restore_Inr_iff scores_loop_take iterate_seed split_beta
          split: sum.splits)
  qed
qed



lemma evals_nth:
  assumes "map (eval_batch clf atn t) batches = map Inr bes" and "i < length batches"
  shows "eval_batch clf atn t (batches ! i) = Inr (bes ! i)" and "length bes = length batches"
proof -
  from assms(1) have len: "length batches = length bes" by (rule map_eq_imp_length_eq)
  then show "length bes = length batches" by simp
  from assms(2) len have "map (eval_batch clf atn t) batches ! i = map Inr bes ! i"
    using assms(1) by simp
  with assms(2) len show "eval_batch clf atn t (batches ! i) = Inr (bes ! i)" by simp
qed

lemma pass_ids:
  assumes ev: "map (eval_batch clf atn t) batches = map Inr bes"
  shows "map (\<lambda>(k, (b, be)). find_adversary_ids (k0 + k) bs (snd b)
                 (be_y_test_pred be) (be_y_pred_adversarial be))
           (enumerate 0 (zip batches bes))
       = map (\<lambda>(k, (x, y)). find_adversary_ids (k0 + k) bs y (clf_call clf x)
                 (adversarial_pred clf atn t x))
           (enumerate 0 batches)"
proof (rule nth_equalityI)
  from ev have len: "length batches = length bes" by (rule map_eq_imp_length_eq)
  then show "length (map (\<lambda>(k, (b, be)). find_adversary_ids (k0 + k) bs (snd b)
                 (be_y_test_pred be) (be_y_pred_adversarial be))
           (enumerate 0 (zip batches bes)))
      = length (map (\<lambda>(k, (x, y)). find_adversary_ids (k0 + k) bs y (clf_call clf x)
                 (adversarial_pred clf atn t x))
           (enumerate 0 batches))"
    by simp
  fix i
  assume "i < length (map (\<lambda>(k, (b, be)). find_adversary_ids (k0 + k) bs (snd b)
                 (be_y_test_pred be) (be_y_pred_adversarial be))
           (enumerate 0 (zip batches bes)))"
  with len have i: "i < length batches" by simp
  obtain x y where b: "batches ! i = (x, y)" by (cases "batches ! i")
  from evals_nth(1)[OF ev i] b have "eval_batch clf atn t (x, y) = Inr (bes ! i)" by simp
  from eval_batch_Inr(1,2)[OF this] i len b
  show "map (\<lambda>(k, (b, be)). find_adversary_ids (k0 + k) bs (snd b)
                 (be_y_test_pred be) (be_y_pred_adversarial be))
           (enumerate 0 (zip batches bes)) ! i
      = map (\<lambda>(k, (x, y)). find_adversary_ids (k0 + k) bs y (clf_call clf x)
                 (adversarial_pred clf atn t x))
           (enumerate 0 batches) ! i"
    by (simp add: nth_enumerate_eq)
qed

lemma argwhere_map2:
  "argwhere found = filter (\<lambda>i. found ! i) [0..<length found]"
  by (simp add: argwhere_def)

lemma find_adversary_ids_spec:
  assumes "length y = n" and "length y_pred = n" and "length y_adv = n"
  shows "find_adversary_ids k bs y y_pred y_adv
       = map (\<lambda>i. int k * int bs + int i)
           (filter (\<lambda>i. argmax (y_pred ! i) = argmax (y ! i)
                        \<and> argmax (y_adv ! i) \<noteq> argmax (y_pred ! i)) [0..<n])"
proof -
  let ?found = "map2 (\<lambda>a b. a \<and> b)
      (map2 (\<lambda>a b. a = b) (map argmax y) (map argmax y_pred))
      (map2 (\<lambda>a b. a \<noteq> b) (map argmax y_pred) (map argmax y_adv))"
  have len: "length ?found = n" using assms by simp
  have "filter (\<lambda>i. ?found ! i) [0..<n]
      = filter (\<lambda>i. argmax (y_pred ! i) = argmax (y ! i)
                    \<and> argmax (y_adv ! i) \<noteq> argmax (y_pred ! i)) [0..<n]"
    using assms by (intro filter_cong refl) auto
  moreover have "find_adversary_ids k bs y y_pred y_adv
      = map (\<lambda>i. int k * int bs + int i) (filter (\<lambda>i. ?found ! i) [0..<length ?found])"
    by (simp add: find_adversary_ids_def checked_argmax_def argwhere_def Let_def)
  ultimately show ?thesis by (simp only: len)
qed

lemma evaluate_gatn_Inr:
  assumes "evaluate_gatn e atn clf args w = Inr (sc, w')"
  shows "\<exists>cv av st.
           clf_files w (clf_ckpt_path clf args) = Some cv
         \<and> atn_files w (atn_ckpt_path atn args) = Some av
         \<and> eval_batchsize e args \<noteq> 0
         \<and> scores_loop (clf_live clf cv) (atn_live atn av) (arg_target_class_id args)
              (eval_batchsize e args) None 0 (test_batches e args (rng w)) scores_init
             = Inr st
         \<and> sc = (result (mse_mean st), result (acc_realistic_mean st),
                 result (acc_optimistic_mean st), result (target_rate_mean st),
                 st_adversary_ids st)"
proof -
  obtain X_train y_train X_test y_test where
    ld: "load_splits e (arg_dataset_name args) = ((X_train, y_train), (X_test, y_test))"
    by (metis surj_pair)
  let ?bs = "min (arg_batchsize args) (length X_train)"
  have bs: "eval_batchsize e args = ?bs" by (simp add: eval_batchsize_def ld)
  from assms obtain nb where nb: "num_batches (length X_test) ?bs = Inr nb"
    by (auto simp: evaluate_gatn_def ld Let_def split: sum.splits)
  then have nz: "?bs \<noteq> 0" by (auto simp: num_batches_def split: if_splits)
  then have nz': "0 < arg_batchsize args" "X_train \<noteq> []" by auto
  have tb: "test_batches e args (rng w)
      = fst (iterate (shuffler e) (rng w)
          \<lparr>ds_X = X_test, ds_y = y_test, ds_batch_size = ?bs, ds_shuffle = shuffle_default e\<rparr>)"
    by (simp add: test_batches_def split_data_def ld bs Let_def)
  from assms nz' show ?thesis
    unfolding bs tb
    by (auto simp: evaluate_gatn_def ld nb Let_def prepare_dataset_def clf_ckpt_path_def
        atn_ckpt_path_def restore_Inr_iff split_beta split: sum.splits)
qed

section \<open>Evaluation engine: the adversary indices\<close>


lemma loop_ids:
  assumes "scores_loop C A t bs None 0 batches scores_init = Inr st"
  shows "st_adversary_ids st
       = concat (map (\<lambda>(k, (x, y)). find_adversary_ids k bs y (clf_call C x)
                         (adversarial_pred C A t x))
                   (enumerate 0 batches))"
proof -
  from scores_loop_None[OF assms] obtain bes where
    ev: "map (eval_batch C A t) batches = map Inr bes"
    and st: "st = run_steps bs (zip batches bes) scores_init"
    by blast
  have "st_adversary_ids st
      = concat (map (\<lambda>(k, (b, be)). find_adversary_ids (0 + k) bs (snd b)
                       (be_y_test_pred be) (be_y_pred_adversarial be))
                 (enumerate 0 (zip batches bes)))"
    unfolding st run_steps_ids by (simp add: scores_init_def)
  also have "\<dots> = concat (map (\<lambda>(k, (x, y)). find_adversary_ids (0 + k) bs y (clf_call C x)
                         (adversarial_pred C A t x))
                   (enumerate 0 batches))"
    by (simp only: pass_ids[OF ev])
  finally show ?thesis by simp
qed

lemma demo_test_scores:
  "(case test_scores_gatn demo_env demo_atn demo_clf demo_args False demo_world of
      Inl e \<Rightarrow> None | Inr (sc, w') \<Rightarrow> Some sc)
   = Some (75, 1/4, 1/4, 3/4, [0, 2])"
  by code_simp

lemma demo_scenario:
  "pass_batches TestSplit demo_env demo_args False 0 = [(demo_X, demo_y)]"
  "map argmax demo_y = [0, 1, 0, 1]"
  "checked_argmax (clf_call demo_clf_model demo_X) = [0, 0, 0, 0]"
  "checked_argmax (adversarial_pred demo_clf_model (atn_live demo_atn 1) 1 demo_X) = [1, 1, 1, 0]"
  by code_simp+

text \<open>
  Claim C4. In an evaluation pass a sample enters the adversary index list exactly when its
  clean prediction (the argmax of the classifier on the input) equals its ground-truth label
  and its adversarial prediction (the argmax of the classifier on the output of the ATN)
  differs from the clean prediction; the index recorded is the number of the batch times
  the batch size plus the position in the batch, and the indices of a pass are those of its
  batches in the order of iteration, for the two scoring functions and for
  \<open>evaluate_gatn\<close>. In the scenario of one batch of four samples with ground truth
  \<open>[0,1,0,1]\<close>, clean predictions \<open>[0,0,0,0]\<close> and adversarial predictions
  \<open>[1,1,1,0]\<close> for target class 1, the pass reports the indices \<open>[0, 2]\<close> and the target
  rate 0.75.
\<close>

theorem adversary_ids_of_a_pass:
  "(length y = n \<and> length (clf_call C x) = n \<and> length (adversarial_pred C A t x) = n \<longrightarrow>
      find_adversary_ids k bs y (clf_call C x) (adversarial_pred C A t x)
      = map (\<lambda>i. int k * int bs + int i)
          (filter (\<lambda>i. argmax (clf_call C x ! i) = argmax (y ! i)
                       \<and> argmax (adversarial_pred C A t x ! i) \<noteq> argmax (clf_call C x ! i))
             [0..<n]))
   \<and> (scores_gatn which e atn clf args sh w = Inr ((mse, ar, ao, tr, ids), w') \<longrightarrow>
        (\<exists>cv av. clf_files w (clf_ckpt_path clf args) = Some cv
           \<and> atn_files w (atn_ckpt_path atn args) = Some av
           \<and> ids = concat (map (\<lambda>(k, (x, y)).
                       find_adversary_ids k (eval_batchsize e args) y
                         (clf_call (clf_live clf cv) x)
                         (adversarial_pred (clf_live clf cv) (atn_live atn av)
                            (arg_target_class_id args) x))
                     (enumerate 0 (pass_batches which e args sh (rng w))))))
   \<and> (evaluate_gatn e atn clf args w = Inr ((mse, ar, ao, tr, ids), w') \<longrightarrow>
        (\<exists>cv av. clf_files w (clf_ckpt_path clf args) = Some cv
           \<and> atn_files w (atn_ckpt_path atn args) = Some av
           \<and> ids = concat (map (\<lambda>(k, (x, y)).
                       find_adversary_ids k (eval_batchsize e args) y
                         (clf_call (clf_live clf cv) x)
                         (adversarial_pred (clf_live clf cv) (atn_live atn av)
                            (arg_target_class_id args) x))
                     (enumerate 0 (test_batches e args (rng w))))))
   \<and> pass_batches TestSplit demo_env demo_args False 0 = [(demo_X, demo_y)]
   \<and> map argmax demo_y = [0, 1, 0, 1]
   \<and> checked_argmax (clf_call demo_clf_model demo_X) = [0, 0, 0, 0]
   \<and> checked_argmax (adversarial_pred demo_clf_model (atn_live demo_atn 1) 1 demo_X)
       = [1, 1, 1, 0]
   \<and> (case test_scores_gatn demo_env demo_atn demo_clf demo_args False demo_world of
         Inl e \<Rightarrow> None | Inr (sc, w') \<Rightarrow> Some sc)
       = Some (75, 1/4, 1/4, 3/4, [0, 2])"
proof -
  have per_batch: "length y = n \<and> length (clf_call C x) = n
      \<and> length (adversarial_pred C A t x) = n \<longrightarrow>
      find_adversary_ids k bs y (clf_call C x) (adversarial_pred C A t x)
      = map (\<lambda>i. int k * int bs + int i)
          (filter (\<lambda>i. argmax (clf_call C x ! i) = argmax (y ! i)
                       \<and> argmax (adversarial_pred C A t x ! i) \<noteq> argmax (clf_call C x ! i))
             [0..<n])"
    by (intro impI, elim conjE) (rule find_adversary_ids_spec)
  have scoring: "scores_gatn which e atn clf args sh w = Inr ((mse, ar, ao, tr, ids), w') \<longrightarrow>
        (\<exists>cv av. clf_files w (clf_ckpt_path clf args) = Some cv
           \<and> atn_files w (atn_ckpt_path atn args) = Some av
           \<and> ids = concat (map (\<lambda>(k, (x, y)).
                       find_adversary_ids k (eval_batchsize e args) y
                         (clf_call (clf_live clf cv) x)
                         (adversarial_pred (clf_live clf cv) (atn_live atn av)
                            (arg_target_class_id args) x))
                     (enumerate 0 (pass_batches which e args sh (rng w)))))"
  proof
    assume "scores_gatn which e atn clf args sh w = Inr ((mse, ar, ao, tr, ids), w')"
    from scores_gatn_Inr[OF this] obtain cv av st where
      f: "clf_files w (clf_ckpt_path clf args) = Some cv"
         "atn_files w (atn_ckpt_path atn args) = Some av"
      and loop: "scores_loop (clf_live clf cv) (atn_live atn av) (arg_target_class_id args)
              (eval_batchsize e args) None 0 (pass_batches which e args sh (rng w)) scores_init
             = Inr st"
      and ids: "ids = st_adversary_ids st"
      by auto
    from f ids loop_ids[OF loop] show "\<exists>cv av. clf_files w (clf_ckpt_path clf args) = Some cv
           \<and> atn_files w (atn_ckpt_path atn args) = Some av
           \<and> ids = concat (map (\<lambda>(k, (x, y)).
                       find_adversary_ids k (eval_batchsize e args) y
                         (clf_call (clf_live clf cv) x)
                         (adversarial_pred (clf_live clf cv) (atn_live atn av)
                            (arg_target_class_id args) x))
                     (enumerate 0 (pass_batches which e args sh (rng w))))"
      by simp
  qed
  have evaluating: "evaluate_gatn e atn clf args w = Inr ((mse, ar, ao, tr, ids), w') \<longrightarrow>
        (\<exists>cv av. clf_files w (clf_ckpt_path clf args) = Some cv
           \<and> atn_files w (atn_ckpt_path atn args) = Some av
           \<and> ids = concat (map (\<lambda>(k, (x, y)).
                       find_adversary_ids k (eval_batchsize e args) y
                         (clf_call (clf_live clf cv) x)
                         (adversarial_pred (clf_live clf cv) (atn_live atn av)
                            (arg_target_class_id args) x))
                     (enumerate 0 (test_batches e args (rng w)))))"
  proof
    assume "evaluate_gatn e atn clf args w = Inr ((mse, ar, ao, tr, ids), w')"
    from evaluate_gatn_Inr[OF this] obtain cv av st where
      f: "clf_files w (clf_ckpt_path clf args) = Some cv"
         "atn_files w (atn_ckpt_path atn args) = Some av"
      and loop: "scores_loop (clf_live clf cv) (atn_live atn av) (arg_target_class_id args)
              (eval_batchsize e args) None 0 (test_batches e args (rng w)) scores_init
             = Inr st"
      and ids: "ids = st_adversary_ids st"
      by auto
    from f ids loop_ids[OF loop] show "\<exists>cv av. clf_files w (clf_ckpt_path clf args) = Some cv
           \<and> atn_files w (atn_ckpt_path atn args) = Some av
           \<and> ids = concat (map (\<lambda>(k, (x, y)).
                       find_adversary_ids k (eval_batchsize e args) y
                         (clf_call (clf_live clf cv) x)
                         (adversarial_pred (clf_live clf cv) (atn_live atn av)
                            (arg_target_class_id args) x))
                     (enumerate 0 (test_batches e args (rng w))))"
      by simp
  qed
  from per_batch scoring evaluating demo_scenario demo_test_scores
  show ?thesis by (intro conjI)
qed

theorem adversary_ids_of_a_pass_witness:
  "find_adversary_ids 0 4 demo_y (clf_call demo_clf_model demo_X)
     (adversarial_pred demo_clf_model (atn_live demo_atn 1) 1 demo_X) = [0, 2]
   \<and> find_adversary_ids 2 4 demo_y (clf_call demo_clf_model demo_X)
     (adversarial_pred demo_clf_model (atn_live demo_atn 1) 1 demo_X) = [8, 10]"
proof -
  have len: "length demo_y = 4 \<and> length (clf_call demo_clf_model demo_X) = 4
      \<and> length (adversarial_pred demo_clf_model (atn_live demo_atn 1) 1 demo_X) = 4"
    by code_simp
  have sel: "filter (\<lambda>i. argmax (clf_call demo_clf_model demo_X ! i) = argmax (demo_y ! i)
        \<and> argmax (adversarial_pred demo_clf_model (atn_live demo_atn 1) 1 demo_X ! i)
            \<noteq> argmax (clf_call demo_clf_model demo_X ! i)) [0..<4] = [0, 2]"
    by code_simp
  note per_batch = adversary_ids_of_a_pass[THEN conjunct1, rule_format, OF len]
  show ?thesis by (simp add: per_batch sel)
qed

section \<open>Evaluation engine: the four metrics\<close>


lemma evals_map:
  assumes ev: "map (eval_batch C A t) batches = map Inr bes"
    and fg: "\<And>x y be. eval_batch C A t (x, y) = Inr be \<Longrightarrow> f be = g (x, y)"
  shows "map (\<lambda>p. f (snd p)) (zip batches bes) = map g batches"
proof (rule nth_equalityI)
  from ev have len: "length batches = length bes" by (rule map_eq_imp_length_eq)
  then show "length (map (\<lambda>p. f (snd p)) (zip batches bes)) = length (map g batches)" by simp
  fix i assume "i < length (map (\<lambda>p. f (snd p)) (zip batches bes))"
  with len have i: "i < length batches" by simp
  obtain x y where b: "batches ! i = (x, y)" by (cases "batches ! i")
  from evals_nth(1)[OF ev i] b have "eval_batch C A t (x, y) = Inr (bes ! i)" by simp
  from fg[OF this] i len b
  show "map (\<lambda>p. f (snd p)) (zip batches bes) ! i = map g batches ! i" by simp
qed

lemma result_mean:
  "total m = sum_list vs \<Longrightarrow> count m = length vs \<Longrightarrow> result m = mean_of_batches vs"
  by (simp add: result_def mean_of_batches_def)

lemma loop_metrics:
  assumes "scores_loop C A t bs None 0 batches scores_init = Inr st"
  shows "result (mse_mean st) = mean_of_batches (map (\<lambda>(x, y). batch_mse C A t x) batches)"
    and "result (acc_realistic_mean st)
         = mean_of_batches (map (\<lambda>(x, y). fst (target_accuracy y (adversarial_pred C A t x) t))
                              batches)"
    and "result (acc_optimistic_mean st)
         = mean_of_batches (map (\<lambda>(x, y). fst (target_accuracy (clf_call C x)
                                                  (adversarial_pred C A t x) t)) batches)"
    and "result (target_rate_mean st)
         = mean_of_batches (map (\<lambda>(x, y). snd (target_accuracy y (adversarial_pred C A t x) t))
                              batches)"
proof -
  from scores_loop_None[OF assms] obtain bes where
    ev: "map (eval_batch C A t) batches = map Inr bes"
    and st: "st = run_steps bs (zip batches bes) scores_init"
    by blast
  have "length batches = length bes" using ev by (rule map_eq_imp_length_eq)
  then have len: "length bes = length batches" by simp
  have m1: "map (\<lambda>p. be_x_mse (snd p)) (zip batches bes)
      = map (\<lambda>(x, y). batch_mse C A t x) batches"
    by (rule evals_map[OF ev]) (simp add: eval_batch_Inr(6) batch_mse_def)
  have m2: "map (\<lambda>p. be_acc_val_white (snd p)) (zip batches bes)
      = map (\<lambda>(x, y). fst (target_accuracy y (adversarial_pred C A t x) t)) batches"
    by (rule evals_map[OF ev]) (simp add: eval_batch_Inr(3))
  have m3: "map (\<lambda>p. be_acc_val_black (snd p)) (zip batches bes)
      = map (\<lambda>(x, y). fst (target_accuracy (clf_call C x) (adversarial_pred C A t x) t)) batches"
    by (rule evals_map[OF ev]) (simp add: eval_batch_Inr(5))
  have m4: "map (\<lambda>p. be_target_rate (snd p)) (zip batches bes)
      = map (\<lambda>(x, y). snd (target_accuracy y (adversarial_pred C A t x) t)) batches"
    by (rule evals_map[OF ev]) (simp add: eval_batch_Inr(4))
  show "result (mse_mean st) = mean_of_batches (map (\<lambda>(x, y). batch_mse C A t x) batches)"
    by (rule result_mean)
       (simp_all add: st run_steps_means scores_init_def Mean_def m1 len)
  show "result (acc_realistic_mean st)
         = mean_of_batches (map (\<lambda>(x, y). fst (target_accuracy y (adversarial_pred C A t x) t))
                              batches)"
    by (rule result_mean)
       (simp_all add: st run_steps_means scores_init_def Mean_def m2 len)
  show "result (acc_optimistic_mean st)
         = mean_of_batches (map (\<lambda>(x, y). fst (target_accuracy (clf_call C x)
                                                  (adversarial_pred C A t x) t)) batches)"
    by (rule result_mean)
       (simp_all add: st run_steps_means scores_init_def Mean_def m3 len)
  show "result (target_rate_mean st)
         = mean_of_batches (map (\<lambda>(x, y). snd (target_accuracy y (adversarial_pred C A t x) t))
                              batches)"
    by (rule result_mean)
       (simp_all add: st run_steps_means scores_init_def Mean_def m4 len)
qed



lemma demo_unequal_batches:
  "(case test_scores_gatn demo_env demo_atn demo_clf (demo_args\<lparr>arg_batchsize := 3\<rparr>) False
           demo_world of
      Inl e \<Rightarrow> None | Inr (sc, w') \<Rightarrow> Some sc)
   = Some (50, 1/6, 1/2, 1/2, [0, 2])"
  "map (\<lambda>(x, y). (length x, batch_mse demo_clf_model (atn_live demo_atn 1) 1 x))
     (pass_batches TestSplit demo_env (demo_args\<lparr>arg_batchsize := 3\<rparr>) False 0)
   = [(3, 100), (1, 0)]"
  "mean_of_batches [100, 0] = 50"
  "weighted_mean [(3, 100), (1, 0)] = 75"
  by code_simp+

text \<open>
  Claim C7. Each of the four metrics an evaluation pass returns (reconstruction mse,
  realistic accuracy, optimistic accuracy, target rate) is the plain arithmetic mean of the
  values of the batches of the pass, whatever their sizes. It is a mean of batch means and
  not the mean weighted by the number of samples: on the split of four samples in batches
  of three and one, the batch errors are 100 and 0, the pass returns 50, and the weighted
  mean is 75.
\<close>

theorem metrics_are_means_of_batch_means:
  "((scores_gatn which e atn clf args sh w = Inr ((mse, ar, ao, tr, ids), w')
        \<and> batches = pass_batches which e args sh (rng w))
       \<or> (evaluate_gatn e atn clf args w = Inr ((mse, ar, ao, tr, ids), w')
           \<and> batches = test_batches e args (rng w)) \<longrightarrow>
       (\<exists>cv av. clf_files w (clf_ckpt_path clf args) = Some cv
          \<and> atn_files w (atn_ckpt_path atn args) = Some av
          \<and> mse = mean_of_batches
                    (map (\<lambda>(x, y). batch_mse (clf_live clf cv) (atn_live atn av)
                                      (arg_target_class_id args) x) batches)
          \<and> ar = mean_of_batches
                   (map (\<lambda>(x, y). fst (target_accuracy y
                           (adversarial_pred (clf_live clf cv) (atn_live atn av)
                              (arg_target_class_id args) x) (arg_target_class_id args))) batches)
          \<and> ao = mean_of_batches
                   (map (\<lambda>(x, y). fst (target_accuracy (clf_call (clf_live clf cv) x)
                           (adversarial_pred (clf_live clf cv) (atn_live atn av)
                              (arg_target_class_id args) x) (arg_target_class_id args))) batches)
          \<and> tr = mean_of_batches
                   (map (\<lambda>(x, y). snd (target_accuracy y
                           (adversarial_pred (clf_live clf cv) (atn_live atn av)
                              (arg_target_class_id args) x) (arg_target_class_id args))) batches)))
   \<and> (case test_scores_gatn demo_env demo_atn demo_clf (demo_args\<lparr>arg_batchsize := 3\<rparr>) False
              demo_world of
         Inl e \<Rightarrow> None | Inr (sc, w') \<Rightarrow> Some sc)
       = Some (50, 1/6, 1/2, 1/2, [0, 2])
   \<and> map (\<lambda>(x, y). (length x, batch_mse demo_clf_model (atn_live demo_atn 1) 1 x))
         (pass_batches TestSplit demo_env (demo_args\<lparr>arg_batchsize := 3\<rparr>) False 0)
       = [(3, 100), (1, 0)]
   \<and> mean_of_batches [100, 0] = 50
   \<and> weighted_mean [(3, 100), (1, 0)] = 75"
proof -
  let ?t = "arg_target_class_id args"
  have general: "(scores_gatn which e atn clf args sh w = Inr ((mse, ar, ao, tr, ids), w')
        \<and> batches = pass_batches which e args sh (rng w))
       \<or> (evaluate_gatn e atn clf args w = Inr ((mse, ar, ao, tr, ids), w')
           \<and> batches = test_batches e args (rng w)) \<longrightarrow>
       (\<exists>cv av. clf_files w (clf_ckpt_path clf args) = Some cv
          \<and> atn_files w (atn_ckpt_path atn args) = Some av
          \<and> mse = mean_of_batches
                    (map (\<lambda>(x, y). batch_mse (clf_live clf cv) (atn_live atn av) ?t x) batches)
          \<and> ar = mean_of_batches
                   (map (\<lambda>(x, y). fst (target_accuracy y
                           (adversarial_pred (clf_live clf cv) (atn_live atn av) ?t x) ?t)) batches)
          \<and> ao = mean_of_batches
                   (map (\<lambda>(x, y). fst (target_accuracy (clf_call (clf_live clf cv) x)
                           (adversarial_pred (clf_live clf cv) (atn_live atn av) ?t x) ?t)) batches)
          \<and> tr = mean_of_batches
                   (map (\<lambda>(x, y). snd (target_accuracy y
                           (adversarial_pred (clf_live clf cv) (atn_live atn av) ?t x) ?t)) batches))"
  proof
    assume "(scores_gatn which e atn clf args sh w = Inr ((mse, ar, ao, tr, ids), w')
        \<and> batches = pass_batches which e args sh (rng w))
       \<or> (evaluate_gatn e atn clf args w = Inr ((mse, ar, ao, tr, ids), w')
           \<and> batches = test_batches e args (rng w))"
    then obtain cv av st where
      f: "clf_files w (clf_ckpt_path clf args) = Some cv"
         "atn_files w (atn_ckpt_path atn args) = Some av"
      and loop: "scores_loop (clf_live clf cv) (atn_live atn av) ?t
              (eval_batchsize e args) None 0 batches scores_init = Inr st"
      and sc: "mse = result (mse_mean st)" "ar = result (acc_realistic_mean st)"
              "ao = result (acc_optimistic_mean st)" "tr = result (target_rate_mean st)"
    proof (elim disjE conjE)
      assume run: "scores_gatn which e atn clf args sh w = Inr ((mse, ar, ao, tr, ids), w')"
        and b: "batches = pass_batches which e args sh (rng w)"
      from scores_gatn_Inr[OF run] b that show thesis by auto
    next
      assume run: "evaluate_gatn e atn clf args w = Inr ((mse, ar, ao, tr, ids), w')"
        and b: "batches = test_batches e args (rng w)"
      from evaluate_gatn_Inr[OF run] b that show thesis by auto
    qed
    from f sc loop_metrics[OF loop]
    show "\<exists>cv av. clf_files w (clf_ckpt_path clf args) = Some cv
          \<and> atn_files w (atn_ckpt_path atn args) = Some av
          \<and> mse = mean_of_batches
                    (map (\<lambda>(x, y). batch_mse (clf_live clf cv) (atn_live atn av) ?t x) batches)
          \<and> ar = mean_of_batches
                   (map (\<lambda>(x, y). fst (target_accuracy y
                           (adversarial_pred (clf_live clf cv) (atn_live atn av) ?t x) ?t)) batches)
          \<and> ao = mean_of_batches
                   (map (\<lambda>(x, y). fst (target_accuracy (clf_call (clf_live clf cv) x)
                           (adversarial_pred (clf_live clf cv) (atn_live atn av) ?t x) ?t)) batches)
          \<and> tr = mean_of_batches
                   (map (\<lambda>(x, y). snd (target_accuracy y
                           (adversarial_pred (clf_live clf cv) (atn_live atn av) ?t x) ?t)) batches)"
      by simp
  qed
  from general demo_unequal_batches show ?thesis by (intro conjI)
qed

theorem metrics_are_means_of_batch_means_witness:
  "(case test_scores_gatn demo_env demo_atn demo_clf (demo_args\<lparr>arg_batchsize := 3\<rparr>) False
          demo_world of
      Inl e \<Rightarrow> False
    | Inr ((mse, ar, ao, tr, ids), w') \<Rightarrow>
        mse = mean_of_batches [100, 0] \<and> mse = 50 \<and> mse \<noteq> weighted_mean [(3, 100), (1, 0)])"
proof -
  let ?args = "demo_args\<lparr>arg_batchsize := 3\<rparr>"
  let ?run = "test_scores_gatn demo_env demo_atn demo_clf ?args False demo_world"
  obtain w' where run: "?run = Inr ((50, 1/6, 1/2, 1/2, [0, 2]), w')"
  proof (cases ?run)
    case (Inl e)
    with demo_unequal_batches(1) show ?thesis by simp
  next
    case (Inr r)
    obtain sc w1 where r: "r = (sc, w1)" by (cases r)
    with Inr demo_unequal_batches(1) have "sc = (50, 1/6, 1/2, 1/2, [0, 2])" by simp
    with Inr r that show ?thesis by simp
  qed
  have files: "clf_files demo_world (clf_ckpt_path demo_clf ?args) = Some ()"
    "atn_files demo_world (atn_ckpt_path demo_atn ?args) = Some 1"
    by code_simp+
  have per_batch: "map (\<lambda>(x, y). batch_mse (clf_live demo_clf ()) (atn_live demo_atn 1)
                           (arg_target_class_id ?args) x)
                     (pass_batches TestSplit demo_env ?args False (rng demo_world))
                   = [100, 0]"
    by code_simp
  from run have run': "scores_gatn TestSplit demo_env demo_atn demo_clf ?args False demo_world
      = Inr ((50, 1/6, 1/2, 1/2, [0, 2]), w')"
    by (simp add: test_scores_gatn_def)
  from metrics_are_means_of_batch_means[THEN conjunct1, rule_format, OF disjI1,
      OF conjI, OF run' refl]
  have "50 = mean_of_batches [100, 0]"
    using files per_batch by auto
  then show ?thesis
    using demo_unequal_batches(3,4) by (simp add: run)
qed

section \<open>Evaluation engine: batches of a split\<close>


declare batch_list.simps [simp del]























section \<open>Evaluation engine: repeated runs\<close>


lemma iterate_unshuffled:
  "\<not> ds_shuffle ds \<Longrightarrow> iterate shf seed ds
     = (map (\<lambda>chunk. (map fst chunk, map snd chunk))
          (batch_list (ds_batch_size ds) (zip (ds_X ds) (ds_y ds))), seed)"
  by (simp add: iterate_def Let_def)

lemma world_eq:
  fixes w1 w2 :: "('c, 'p) world"
  assumes "clf_files w2 = clf_files w1" and "atn_files w2 = atn_files w1"
  shows "w2 = w1\<lparr>dirs := dirs w2, rng := rng w2\<rparr>"
  using assms by (cases w1; cases w2) simp

lemma scores_gatn_frame:
  "map_sum id fst (scores_gatn which e atn clf args False (w\<lparr>dirs := d, rng := r\<rparr>))
   = map_sum id fst (scores_gatn which e atn clf args False w)"
  by (cases which)
     (simp_all add: scores_gatn_def Let_def split_beta prepare_dataset_def iterate_unshuffled
        split: sum.splits)

lemma evaluate_gatn_frame:
  "\<not> shuffle_default e \<Longrightarrow>
   map_sum id fst (evaluate_gatn e atn clf args (w\<lparr>dirs := d, rng := r\<rparr>))
   = map_sum id fst (evaluate_gatn e atn clf args w)"
  by (simp add: evaluate_gatn_def Let_def split_beta prepare_dataset_def iterate_unshuffled
      split: sum.splits)

lemma evaluate_gatn_files:
  assumes "evaluate_gatn e atn clf args w = Inr (sc, w')"
  shows "clf_files w' = clf_files w \<and> atn_files w' = atn_files w"
  using assms
  by (auto simp: evaluate_gatn_def Let_def split_beta split: sum.splits)

lemma scores_gatn_same_files:
  fixes w1 w2 :: "('c, 'p) world"
  assumes "clf_files w2 = clf_files w1" and "atn_files w2 = atn_files w1"
  shows "map_sum id fst (scores_gatn which e atn clf args False w2)
       = map_sum id fst (scores_gatn which e atn clf args False w1)"
  using scores_gatn_frame[where w = w1 and d = "dirs w2" and r = "rng w2"] world_eq[OF assms]
  by simp

lemma evaluate_gatn_same_files:
  fixes w1 w2 :: "('c, 'p) world"
  assumes "clf_files w2 = clf_files w1" and "atn_files w2 = atn_files w1"
    and "\<not> shuffle_default e"
  shows "map_sum id fst (evaluate_gatn e atn clf args w2)
       = map_sum id fst (evaluate_gatn e atn clf args w1)"
  using evaluate_gatn_frame[OF assms(3), where w = w1 and d = "dirs w2" and r = "rng w2"]
    world_eq[OF assms(1,2)]
  by simp



text \<open>
  Claim C6. An unshuffled evaluation reads of the world only the two checkpoint files: two
  runs on worlds that hold the same classifier and ATN checkpoints return the same four
  metrics and the same adversary index list (or fail alike), whatever directories exist and
  whatever state the random generator is in; and a run leaves the checkpoint files as they
  were, so running the evaluation again on the world the first run left returns what the
  first run returned.
\<close>

theorem evaluation_is_repeatable:
  fixes w1 w2 :: "('c, 'p) world"
  shows "(clf_files w2 = clf_files w1 \<and> atn_files w2 = atn_files w1 \<longrightarrow>
            map_sum id fst (scores_gatn which e atn clf args False w2)
              = map_sum id fst (scores_gatn which e atn clf args False w1)
            \<and> (\<not> shuffle_default e \<longrightarrow>
                 map_sum id fst (evaluate_gatn e atn clf args w2)
                   = map_sum id fst (evaluate_gatn e atn clf args w1)))
       \<and> (scores_gatn which e atn clf args False w1 = Inr (sc, w') \<longrightarrow>
            map_sum id fst (scores_gatn which e atn clf args False w') = Inr sc)
       \<and> (\<not> shuffle_default e \<and> evaluate_gatn e atn clf args w1 = Inr (sc, w') \<longrightarrow>
            map_sum id fst (evaluate_gatn e atn clf args w') = Inr sc)"
proof -
  have a: "clf_files w2 = clf_files w1 \<and> atn_files w2 = atn_files w1 \<longrightarrow>
            map_sum id fst (scores_gatn which e atn clf args False w2)
              = map_sum id fst (scores_gatn which e atn clf args False w1)
            \<and> (\<not> shuffle_default e \<longrightarrow>
                 map_sum id fst (evaluate_gatn e atn clf args w2)
                   = map_sum id fst (evaluate_gatn e atn clf args w1))"
  proof (intro impI conjI, elim conjE)
    assume f: "clf_files w2 = clf_files w1" "atn_files w2 = atn_files w1"
    show "map_sum id fst (scores_gatn which e atn clf args False w2)
              = map_sum id fst (scores_gatn which e atn clf args False w1)"
      by (rule scores_gatn_same_files[OF f])
  next
    assume "clf_files w2 = clf_files w1 \<and> atn_files w2 = atn_files w1"
      and ns: "\<not> shuffle_default e"
    then have f: "clf_files w2 = clf_files w1" "atn_files w2 = atn_files w1" by simp_all
    show "map_sum id fst (evaluate_gatn e atn clf args w2)
                   = map_sum id fst (evaluate_gatn e atn clf args w1)"
      by (rule evaluate_gatn_same_files[OF f ns])
  qed
  have b: "scores_gatn which e atn clf args False w1 = Inr (sc, w') \<longrightarrow>
            map_sum id fst (scores_gatn which e atn clf args False w') = Inr sc"
  proof
    assume run: "scores_gatn which e atn clf args False w1 = Inr (sc, w')"
    from scores_gatn_Inr[OF run] have "clf_files w' = clf_files w1" "atn_files w' = atn_files w1"
      by auto
    from scores_gatn_same_files[OF this, of which e atn clf args] run
    show "map_sum id fst (scores_gatn which e atn clf args False w') = Inr sc" by simp
  qed
  have c: "\<not> shuffle_default e \<and> evaluate_gatn e atn clf args w1 = Inr (sc, w') \<longrightarrow>
            map_sum id fst (evaluate_gatn e atn clf args w') = Inr sc"
  proof (intro impI, elim conjE)
    assume ns: "\<not> shuffle_default e" and run: "evaluate_gatn e atn clf args w1 = Inr (sc, w')"
    from evaluate_gatn_files[OF run] have "clf_files w' = clf_files w1" "atn_files w' = atn_files w1"
      by auto
    from evaluate_gatn_same_files[OF this ns, of atn clf args] run
    show "map_sum id fst (evaluate_gatn e atn clf args w') = Inr sc" by simp
  qed
  from a b c show ?thesis by (intro conjI)
qed

lemma demo_rerun:
  "(case test_scores_gatn demo_env demo_atn demo_clf demo_args False demo_world of
      Inl e \<Rightarrow> None
    | Inr (sc, w') \<Rightarrow>
        Some (sc, map_sum id fst (test_scores_gatn demo_env demo_atn demo_clf demo_args False w')))
   = Some ((75, 1/4, 1/4, 3/4, [0, 2]), Inr (75, 1/4, 1/4, 3/4, [0, 2]))"
  by code_simp

theorem evaluation_is_repeatable_witness:
  "(case test_scores_gatn demo_env demo_atn demo_clf demo_args False demo_world of
      Inl e \<Rightarrow> False
    | Inr (sc, w') \<Rightarrow>
        sc = (75, 1/4, 1/4, 3/4, [0, 2])
        \<and> map_sum id fst (test_scores_gatn demo_env demo_atn demo_clf demo_args False w') = Inr sc)"
proof -
  let ?run = "test_scores_gatn demo_env demo_atn demo_clf demo_args False demo_world"
  obtain sc w' where run: "?run = Inr (sc, w')" and sc: "sc = (75, 1/4, 1/4, 3/4, [0, 2])"
  proof (cases ?run)
    case (Inl e)
    with demo_rerun show ?thesis by simp
  next
    case (Inr r)
    obtain s w1 where r: "r = (s, w1)" by (cases r)
    with Inr demo_rerun have "s = (75, 1/4, 1/4, 3/4, [0, 2])" by simp
    with Inr r that show ?thesis by simp
  qed
  from run have "scores_gatn TestSplit demo_env demo_atn demo_clf demo_args False demo_world
      = Inr (sc, w')"
    by (simp add: test_scores_gatn_def)
  from evaluation_is_repeatable[THEN conjunct2, THEN conjunct1, rule_format, OF this]
  have "map_sum id fst (test_scores_gatn demo_env demo_atn demo_clf demo_args False w') = Inr sc"
    by (simp add: test_scores_gatn_def)
  with run sc show ?thesis by simp
qed

end
